theory Spec2Isabelle
  imports Complex_Main "HOL-Library.Char_ord" "HOL-Library.List_Lexorder" "HOL-Library.Multiset"
begin

section \<open>Strings\<close>

text \<open>
  Python strings are sequences of code points; the model uses \<^typ>\<open>string\<close>, whose
  characters are the code points below 256. On that range \<^verbatim>\<open>str.lower()\<close> maps
  \<^verbatim>\<open>A-Z\<close> and the Latin-1 capitals (192 to 222, except the multiplication sign 215)
  to the code point 32 above, and leaves every other character alone.
\<close>

definition lower_char :: "char \<Rightarrow> char" where
  "lower_char c =
     (let n = (of_char c :: nat)
      in if (65 \<le> n \<and> n \<le> 90) \<or> (192 \<le> n \<and> n \<le> 222 \<and> n \<noteq> 215)
         then char_of (n + 32) else c)"

definition lower :: "string \<Rightarrow> string" where
  "lower s = map lower_char s"

text \<open>\<^verbatim>\<open>sub in s\<close>: \<open>sub\<close> occurs in \<open>s\<close> as a contiguous substring.\<close>

fun str_in :: "string \<Rightarrow> string \<Rightarrow> bool" where
  "str_in sub [] = (sub = [])"
| "str_in sub (c # cs) = (take (length sub) (c # cs) = sub \<or> str_in sub cs)"

section \<open>Adaptive coaching decision engine\<close>

subsection \<open>\<^verbatim>\<open>compute_issue_priority_score\<close>\<close>

text \<open>
  Floats are modelled as reals. The returned dictionary is the record below; its
  \<^verbatim>\<open>components\<close> entry repeats the five component fields and is not duplicated.
\<close>

record priority_result =
  total_score :: real
  severity :: real
  reliability :: real
  phase_importance :: real
  consistency :: real
  progress_modifier :: real

definition severity_points :: "string \<Rightarrow> real \<Rightarrow> real" where
  "severity_points metric_name deviation =
     (let abs_deviation = \<bar>deviation\<bar>
      in if str_in ''angle'' (lower metric_name) \<or> str_in ''rotation'' (lower metric_name)
         then (if abs_deviation \<ge> 80 then 40
               else if abs_deviation \<ge> 50 then 35
               else if abs_deviation \<ge> 30 then 30
               else if abs_deviation \<ge> 20 then 20
               else if abs_deviation \<ge> 10 then 10
               else 5)
         else (if abs_deviation \<ge> 4 then 40
               else if abs_deviation \<ge> 3 then 30
               else if abs_deviation \<ge> 2 then 20
               else if abs_deviation \<ge> 1 then 10
               else 5))"

definition reliability_weights :: "string \<Rightarrow> real option" where
  "reliability_weights k =
     (if k = ''High'' then Some 25
      else if k = ''Medium'' then Some 15
      else if k = ''Low'' then Some 5
      else None)"

definition phase_weights :: "string \<Rightarrow> real option" where
  "phase_weights k =
     (if k = ''contact'' then Some 20
      else if k = ''load'' then Some 15
      else if k = ''follow_through'' then Some 12
      else if k = ''preparation'' then Some 8
      else None)"

text \<open>\<^verbatim>\<open>d.get(k, default)\<close>\<close>

definition dict_get :: "('k \<Rightarrow> 'v option) \<Rightarrow> 'k \<Rightarrow> 'v \<Rightarrow> 'v" where
  "dict_get d k dflt = (case d k of None \<Rightarrow> dflt | Some v \<Rightarrow> v)"

definition progress_mod_points :: "real \<Rightarrow> real" where
  "progress_mod_points progress_delta =
     (if progress_delta > 5 then min 10 progress_delta
      else if progress_delta < -5 then max (-10) progress_delta
      else 0)"

definition compute_issue_priority_score ::
  "string \<Rightarrow> real \<Rightarrow> string \<Rightarrow> string \<Rightarrow> real \<Rightarrow> real \<Rightarrow> priority_result" where
  "compute_issue_priority_score metric_name deviation phase reliability_level
       phase_stability_score progress_delta =
     (let sev = severity_points metric_name deviation;
          priority = 0 + sev;
          reliability_points = dict_get reliability_weights reliability_level 15;
          priority = priority + reliability_points;
          phase_points = dict_get phase_weights (lower phase) 10;
          priority = priority + phase_points;
          consistency_points = (phase_stability_score / 100) * 15;
          priority = priority + consistency_points;
          progress_mod = progress_mod_points progress_delta;
          priority = priority + progress_mod
      in \<lparr> total_score = priority,
           severity = sev,
           reliability = reliability_points,
           phase_importance = phase_points,
           consistency = consistency_points,
           progress_modifier = progress_mod \<rparr>)"

subsection \<open>\<^verbatim>\<open>classify_coaching_issue\<close>\<close>

text \<open>
  \<^verbatim>\<open>progress_delta\<close> defaults to \<^verbatim>\<open>None\<close>, hence the option. The classification is a
  string in the source and stays one here.
\<close>

record issue_classification =
  classification :: string
  recommendation :: string
  is_severe :: bool
  is_reliable :: bool
  is_improving :: bool
  is_worsening :: bool
  is_consistent :: bool

definition classify_coaching_issue ::
  "string \<Rightarrow> real \<Rightarrow> string \<Rightarrow> real option \<Rightarrow> real \<Rightarrow> issue_classification" where
  "classify_coaching_issue metric_name current_deviation reliability_level progress_delta
       phase_stability =
     (let abs_dev = \<bar>current_deviation\<bar>;
          severe = (if str_in ''angle'' (lower metric_name) then abs_dev \<ge> 50 else abs_dev \<ge> 3);
          moderate = (if str_in ''angle'' (lower metric_name) then abs_dev \<ge> 20
                      else abs_dev \<ge> 1.5);
          reliable = (reliability_level \<in> set [''High'', ''Medium'']);
          improving = (case progress_delta of None \<Rightarrow> False | Some p \<Rightarrow> p < -5);
          worsening = (case progress_delta of None \<Rightarrow> False | Some p \<Rightarrow> p > 5);
          consistent = (phase_stability \<ge> 70);
          (cls, rec) =
            (if severe \<and> reliability_level = ''High'' \<and> consistent then
               (if worsening
                then (''CRITICAL'', ''Address immediately - severe issue getting worse'')
                else (''CRITICAL'', ''Address immediately - severe and consistent issue''))
             else if severe \<and> reliable then
               (''PRIORITY'', ''Focus on this - significant deviation from pro technique'')
             else if moderate \<and> reliable \<and> \<not> improving then
               (''PRIORITY'', ''Important area for improvement'')
             else if improving \<and> reliable then
               (''MONITOR'', ''Continue current approach - showing improvement'')
             else if reliability_level = ''Low'' \<and> \<not> severe then
               (''SUPPRESS'', ''Low measurement confidence - may not be actionable'')
             else if moderate \<and> reliability_level = ''Low'' then
               (''MONITOR'', ''Verify measurement quality before focusing on this'')
             else
               (''MONITOR'', ''Track progress - minor issue or improving''))
      in \<lparr> classification = cls,
           recommendation = rec,
           is_severe = severe,
           is_reliable = reliable,
           is_improving = improving,
           is_worsening = worsening,
           is_consistent = consistent \<rparr>)"

subsection \<open>The classifier's decision table as the specification words it\<close>

text \<open>
  The seven rules of the specification, first match wins, over the six inputs it names.
  The flags are the specification's: severe is \<open>\<ge> 50\<close> for an angle metric and
  \<open>\<ge> 3.0\<close> otherwise, moderate is \<open>\<ge> 20\<close> and \<open>\<ge> 1.5\<close>, improving is a progress
  delta below \<open>-5\<close>, worsening one above \<open>5\<close>, consistent a phase stability of at least 70.
\<close>

definition spec_is_severe :: "bool \<Rightarrow> real \<Rightarrow> bool" where
  "spec_is_severe angle_metric deviation =
     (if angle_metric then \<bar>deviation\<bar> \<ge> 50 else \<bar>deviation\<bar> \<ge> 3)"

definition spec_is_moderate :: "bool \<Rightarrow> real \<Rightarrow> bool" where
  "spec_is_moderate angle_metric deviation =
     (if angle_metric then \<bar>deviation\<bar> \<ge> 20 else \<bar>deviation\<bar> \<ge> 1.5)"

definition spec_is_improving :: "real option \<Rightarrow> bool" where
  "spec_is_improving progress_delta =
     (case progress_delta of None \<Rightarrow> False | Some p \<Rightarrow> p < -5)"

definition spec_is_worsening :: "real option \<Rightarrow> bool" where
  "spec_is_worsening progress_delta =
     (case progress_delta of None \<Rightarrow> False | Some p \<Rightarrow> p > 5)"

definition spec_is_consistent :: "real \<Rightarrow> bool" where
  "spec_is_consistent phase_stability = (phase_stability \<ge> 70)"

definition spec_classification ::
  "bool \<Rightarrow> bool \<Rightarrow> string \<Rightarrow> bool \<Rightarrow> bool \<Rightarrow> bool \<Rightarrow> string" where
  "spec_classification severe moderate reliability_level improving worsening consistent =
     (if severe \<and> reliability_level = ''High'' \<and> consistent then ''CRITICAL''
      else if severe \<and> (reliability_level = ''High'' \<or> reliability_level = ''Medium'')
        then ''PRIORITY''
      else if moderate \<and> (reliability_level = ''High'' \<or> reliability_level = ''Medium'')
                \<and> \<not> improving
        then ''PRIORITY''
      else if improving \<and> (reliability_level = ''High'' \<or> reliability_level = ''Medium'')
        then ''MONITOR''
      else if reliability_level = ''Low'' \<and> \<not> severe then ''SUPPRESS''
      else if moderate \<and> reliability_level = ''Low'' then ''MONITOR''
      else ''MONITOR'')"

subsection \<open>\<^verbatim>\<open>generate_adaptive_coaching_focus\<close>\<close>

text \<open>
  A ranked cue is the 5-tuple the source indexes:
  \<open>(cue_text, phase_name, metric_name, deviation, phase)\<close>.
  \<^verbatim>\<open>user_reliability\<close> maps a metric to its assessment, \<^verbatim>\<open>user_phase_stability\<close> maps
  a phase to its \<^verbatim>\<open>overall_score\<close> (the only entry read here), and \<^verbatim>\<open>progress_deltas\<close>
  stands for \<^verbatim>\<open>progress_deltas['phase_scores']\<close>, a map from a phase to its \<^verbatim>\<open>delta\<close>:
  it is \<open>None\<close> when the dictionary is absent, empty or has no such key. An absent or
  empty dictionary is falsy in Python and a missing key fails the \<^verbatim>\<open>in\<close> test, so each
  of them yields the default.
\<close>

type_synonym ranked_cue = "string \<times> string \<times> string \<times> real \<times> string"

record reliability_assessment =
  level :: string
  rel_description :: string
  rel_cv :: real
  rel_std :: real

record adaptive_cue =
  cue_text :: string
  metric :: string
  cue_phase :: string
  cue_deviation :: real
  priority_score :: real
  priority_components :: priority_result
  cue_classification :: string
  cue_recommendation :: string
  cue_reliability :: string
  cue_phase_stability :: real
  cue_progress_delta :: real

record adaptive_focus =
  all_adaptive_cues :: "adaptive_cue list"
  critical :: "adaptive_cue list"
  priority :: "adaptive_cue list"
  monitor :: "adaptive_cue list"
  suppressed :: "adaptive_cue list"
  top_3 :: "adaptive_cue list"

definition adaptive_cue_of ::
  "(string \<Rightarrow> reliability_assessment option) option \<Rightarrow> (string \<Rightarrow> real option) option \<Rightarrow>
   (string \<Rightarrow> real option) option \<Rightarrow> ranked_cue \<Rightarrow> adaptive_cue" where
  "adaptive_cue_of user_reliability user_phase_stability progress_deltas cue_data =
     (case cue_data of (text, phase_name, metric_name, deviation, phase) \<Rightarrow>
        let reliability_level =
              (case user_reliability of None \<Rightarrow> ''Medium''
               | Some ur \<Rightarrow> (case ur metric_name of None \<Rightarrow> ''Medium'' | Some a \<Rightarrow> level a));
            phase_stability =
              (case user_phase_stability of None \<Rightarrow> 75
               | Some ups \<Rightarrow> (case ups phase of None \<Rightarrow> 75 | Some sc \<Rightarrow> sc));
            progress_delta =
              (case progress_deltas of None \<Rightarrow> 0
               | Some pd \<Rightarrow> (case pd phase of None \<Rightarrow> 0 | Some d \<Rightarrow> d));
            priority_data =
              compute_issue_priority_score metric_name deviation phase reliability_level
                phase_stability progress_delta;
            classification_data =
              classify_coaching_issue metric_name deviation reliability_level
                (Some progress_delta) phase_stability
        in \<lparr> cue_text = text,
             metric = metric_name,
             cue_phase = phase,
             cue_deviation = deviation,
             priority_score = total_score priority_data,
             priority_components = priority_data,
             cue_classification = classification classification_data,
             cue_recommendation = recommendation classification_data,
             cue_reliability = reliability_level,
             cue_phase_stability = phase_stability,
             cue_progress_delta = progress_delta \<rparr>)"

text \<open>
  \<^verbatim>\<open>list.sort(key=..., reverse=True)\<close> is stable and descending: an insertion sort on
  the negated key.
\<close>

definition generate_adaptive_coaching_focus ::
  "ranked_cue list \<Rightarrow> (string \<Rightarrow> reliability_assessment option) option \<Rightarrow>
   (string \<Rightarrow> real option) option \<Rightarrow> (string \<Rightarrow> real option) option \<Rightarrow> adaptive_focus" where
  "generate_adaptive_coaching_focus ranked_cues user_reliability user_phase_stability
       progress_deltas =
     (let adaptive_cues =
            map (adaptive_cue_of user_reliability user_phase_stability progress_deltas)
              ranked_cues;
          adaptive_cues = sort_key (\<lambda>x. - priority_score x) adaptive_cues
      in \<lparr> all_adaptive_cues = adaptive_cues,
           critical = filter (\<lambda>c. cue_classification c = ''CRITICAL'') adaptive_cues,
           priority = filter (\<lambda>c. cue_classification c = ''PRIORITY'') adaptive_cues,
           monitor = filter (\<lambda>c. cue_classification c = ''MONITOR'') adaptive_cues,
           suppressed = filter (\<lambda>c. cue_classification c = ''SUPPRESS'') adaptive_cues,
           top_3 = (if length adaptive_cues \<ge> 3 then take 3 adaptive_cues
                    else adaptive_cues) \<rparr>)"

section \<open>Drill recommendations\<close>

text \<open>The exceptions of the Python code that the model makes explicit.\<close>

datatype py_error =
    KeyError | IndexError | TypeError | ValueError | AttributeError | OSError | JSONDecodeError

subsection \<open>\<^verbatim>\<open>get_drill_knowledge_base\<close>\<close>

text \<open>
  The knowledge base is a dictionary from a category to \<^verbatim>\<open>{'drills': [...]}\<close>; the model
  keeps the list of drills of each category, in the order of the source. The
  multiplication sign of the prescriptions is the code point 215.
\<close>

record intensity_levels =
  light :: string
  moderate :: string
  intensive :: string

record drill =
  name :: string
  description :: string
  target_metrics :: "string list"
  target_phases :: "string list"
  intensity :: intensity_levels
  rationale :: string

type_synonym drill_kb = "(string \<times> drill list) list"

definition get_drill_knowledge_base :: drill_kb where
  "get_drill_knowledge_base =
    [
      (''hip_rotation'',
       [
        \<lparr> name = ''Medicine Ball Rotational Throws'',
           description = ''Stand sideways to wall, rotate hips explosively to throw medicine ball'',
           target_metrics = [''hip_rotation''],
           target_phases = [''load'', ''contact''],
           intensity = \<lparr> light = ''2 sets '' @ [CHR 0xD7] @ '' 8 reps, 4-6 lbs ball'',
                         moderate = ''3 sets '' @ [CHR 0xD7] @ '' 10 reps, 6-8 lbs ball'',
                         intensive = ''4 sets '' @ [CHR 0xD7] @ '' 12 reps, 8-10 lbs ball, daily'' \<rparr>,
           rationale = ''Builds rotational power and hip coiling mechanics'' \<rparr>,
        \<lparr> name = ''Hip Rotation Shadow Swings'',
           description = ''Practice stroke focusing solely on hip rotation, exaggerate the movement'',
           target_metrics = [''hip_rotation''],
           target_phases = [''load'', ''contact''],
           intensity = \<lparr> light = ''50 reps, slow tempo'',
                         moderate = ''100 reps, match tempo'',
                         intensive = ''200 reps daily, with resistance band'' \<rparr>,
           rationale = ''Isolates hip rotation to build muscle memory'' \<rparr>
       ]),
      (''elbow_angles'',
       [
        \<lparr> name = ''Wall Contact Drill'',
           description = ''Stand close to wall, practice stroke keeping elbows compact and close to body'',
           target_metrics = [''left_elbow_angle'', ''right_elbow_angle''],
           target_phases = [''contact'', ''load''],
           intensity = \<lparr> light = ''3 sets '' @ [CHR 0xD7] @ '' 10 reps'',
                         moderate = ''5 sets '' @ [CHR 0xD7] @ '' 15 reps'',
                         intensive = ''10 sets '' @ [CHR 0xD7] @ '' 20 reps, add resistance bands'' \<rparr>,
           rationale = ''Enforces proper elbow position and compact arm structure'' \<rparr>,
        \<lparr> name = ''Elbow-to-Body Connection'',
           description = ''Hold small towel between elbow and torso during shadow strokes'',
           target_metrics = [''left_elbow_angle'', ''right_elbow_angle''],
           target_phases = [''preparation'', ''load'', ''contact''],
           intensity = \<lparr> light = ''50 reps'',
                         moderate = ''100 reps'',
                         intensive = ''200 reps, progress to live balls'' \<rparr>,
           rationale = ''Creates kinesthetic awareness of proper elbow position'' \<rparr>
       ]),
      (''knee_stability'',
       [
        \<lparr> name = ''Split-Step to Stance Drill'',
           description = ''Practice split-step followed by balanced backhand stance, hold for 3 seconds'',
           target_metrics = [''left_knee_angle'', ''right_knee_angle''],
           target_phases = [''preparation'', ''load''],
           intensity = \<lparr> light = ''2 sets '' @ [CHR 0xD7] @ '' 10 reps'',
                         moderate = ''3 sets '' @ [CHR 0xD7] @ '' 15 reps'',
                         intensive = ''5 sets '' @ [CHR 0xD7] @ '' 20 reps with weights'' \<rparr>,
           rationale = ''Builds lower body stability and balance'' \<rparr>
       ]),
      (''stance_width'',
       [
        \<lparr> name = ''Ladder Footwork Drill'',
           description = ''Use agility ladder, practice split-stepping into consistent stance width'',
           target_metrics = [''stance_width_normalized''],
           target_phases = [''preparation''],
           intensity = \<lparr> light = ''3 minutes'',
                         moderate = ''5 minutes'',
                         intensive = ''10 minutes with shadow strokes'' \<rparr>,
           rationale = ''Develops consistent footwork and stance positioning'' \<rparr>,
        \<lparr> name = ''Cone Placement Training'',
           description = ''Place cones at optimal foot positions, practice hitting from marked stance'',
           target_metrics = [''stance_width_normalized''],
           target_phases = [''preparation'', ''load''],
           intensity = \<lparr> light = ''20 balls'',
                         moderate = ''50 balls'',
                         intensive = ''100 balls across multiple sessions'' \<rparr>,
           rationale = ''Provides visual feedback for proper stance width'' \<rparr>
       ]),
      (''spine_lean'',
       [
        \<lparr> name = ''Mirror Posture Check'',
           description = ''Practice stroke in front of mirror, focus on maintaining proper spine angle'',
           target_metrics = [''spine_lean''],
           target_phases = [''preparation'', ''load'', ''contact''],
           intensity = \<lparr> light = ''5 minutes daily'',
                         moderate = ''10 minutes daily'',
                         intensive = ''15 minutes 2x daily with video recording'' \<rparr>,
           rationale = ''Visual feedback for posture correction'' \<rparr>
       ]),
      (''shoulder_stability'',
       [
        \<lparr> name = ''Resistance Band Shoulder Rotations'',
           description = ''Use resistance bands to strengthen shoulder stability through stroke motion'',
           target_metrics = [''left_shoulder_angle'', ''right_shoulder_angle''],
           target_phases = [''preparation'', ''load''],
           intensity = \<lparr> light = ''2 sets '' @ [CHR 0xD7] @ '' 10 reps, light band'',
                         moderate = ''3 sets '' @ [CHR 0xD7] @ '' 15 reps, medium band'',
                         intensive = ''4 sets '' @ [CHR 0xD7] @ '' 20 reps, heavy band'' \<rparr>,
           rationale = ''Builds shoulder strength and stability'' \<rparr>
       ]),
      (''general_technique'',
       [
        \<lparr> name = ''Slow-Motion Shadow Strokes'',
           description = ''Execute full stroke in slow motion, focus on feeling each phase'',
           target_metrics = [''all''],
           target_phases = [''all''],
           intensity = \<lparr> light = ''25 reps'',
                         moderate = ''50 reps'',
                         intensive = ''100 reps with video analysis'' \<rparr>,
           rationale = ''Builds muscle memory and movement awareness'' \<rparr>,
        \<lparr> name = ''Video Review Sessions'',
           description = ''Record yourself, compare side-by-side with pro reference'',
           target_metrics = [''all''],
           target_phases = [''all''],
           intensity = \<lparr> light = ''1x per week'',
                         moderate = ''2x per week'',
                         intensive = ''3x per week with detailed notes'' \<rparr>,
           rationale = ''Provides objective feedback on progress'' \<rparr>
       ])
    ]"

subsection \<open>\<^verbatim>\<open>map_metric_to_drill_category\<close>\<close>

definition map_metric_to_drill_category :: "string \<Rightarrow> string" where
  "map_metric_to_drill_category metric_name =
     (let metric_lower = lower metric_name
      in if str_in ''hip'' metric_lower \<and> str_in ''rotation'' metric_lower then ''hip_rotation''
         else if str_in ''elbow'' metric_lower then ''elbow_angles''
         else if str_in ''knee'' metric_lower then ''knee_stability''
         else if str_in ''stance'' metric_lower \<or> str_in ''width'' metric_lower
           then ''stance_width''
         else if str_in ''spine'' metric_lower \<or> str_in ''lean'' metric_lower
           then ''spine_lean''
         else if str_in ''shoulder'' metric_lower then ''shoulder_stability''
         else ''general_technique'')"

subsection \<open>\<^verbatim>\<open>generate_adaptive_drill_recommendations\<close>\<close>

text \<open>
  One recommended drill. The \<^verbatim>\<open>reason\<close> entry of the source, a sentence that formats
  the deviation as a decimal number, is not modelled.
\<close>

record drill_rec =
  issue_metric :: string
  issue_phase :: string
  drill_name :: string
  drill_description :: string
  intensity_level :: string
  prescription :: string
  rec_rationale :: string
  rec_priority_score :: real
  urgency :: string

record recommendations =
  critical_drills :: "drill_rec list"
  priority_drills :: "drill_rec list"
  maintenance_drills :: "drill_rec list"
  suppressed_count :: nat

text \<open>
  The body of the loop over the critical issues: the first drill of the category, when the
  category is in the knowledge base with a non-empty list of drills.
\<close>

definition critical_drill_for :: "drill_kb \<Rightarrow> adaptive_cue \<Rightarrow> drill_rec option" where
  "critical_drill_for kb issue =
     (let category = map_metric_to_drill_category (metric issue)
      in case map_of kb category of
           Some (d # ds) \<Rightarrow>
             Some \<lparr> issue_metric = metric issue,
                    issue_phase = cue_phase issue,
                    drill_name = name d,
                    drill_description = description d,
                    intensity_level = ''intensive'',
                    prescription = intensive (intensity d),
                    rec_rationale = rationale d,
                    rec_priority_score = priority_score issue,
                    urgency = ''HIGH'' \<rparr>
         | _ \<Rightarrow> None)"

text \<open>
  The body of the loop over the priority issues: the only drill of a one-drill category,
  otherwise the drill at index \<open>min(1, len - 1)\<close>, which is index 1.
\<close>

definition priority_drill_for :: "drill_kb \<Rightarrow> adaptive_cue \<Rightarrow> drill_rec option" where
  "priority_drill_for kb issue =
     (let category = map_metric_to_drill_category (metric issue)
      in case map_of kb category of
           Some (d # ds) \<Rightarrow>
             (let available_drills = d # ds;
                  chosen = (if length available_drills = 1 then available_drills ! 0
                            else available_drills ! (min 1 (length available_drills - 1)))
              in Some \<lparr> issue_metric = metric issue,
                       issue_phase = cue_phase issue,
                       drill_name = name chosen,
                       drill_description = description chosen,
                       intensity_level = ''moderate'',
                       prescription = moderate (intensity chosen),
                       rec_rationale = rationale chosen,
                       rec_priority_score = priority_score issue,
                       urgency = ''MODERATE'' \<rparr>)
         | _ \<Rightarrow> None)"

text \<open>The body of the loop over the monitored issues: only an improving issue gets a drill.\<close>

definition maintenance_drill_for :: "drill_kb \<Rightarrow> adaptive_cue \<Rightarrow> drill_rec option" where
  "maintenance_drill_for kb issue =
     (if cue_progress_delta issue < -5 then
        (let category = map_metric_to_drill_category (metric issue)
         in case map_of kb category of
              Some (d # ds) \<Rightarrow>
                Some \<lparr> issue_metric = metric issue,
                       issue_phase = cue_phase issue,
                       drill_name = name d,
                       drill_description = description d,
                       intensity_level = ''light'',
                       prescription = light (intensity d),
                       rec_rationale = rationale d,
                       rec_priority_score = priority_score issue,
                       urgency = ''MAINTENANCE'' \<rparr>
            | _ \<Rightarrow> None)
      else None)"

text \<open>The drill appended when no critical and no priority drill was produced.\<close>

definition general_drill_rec :: "drill \<Rightarrow> drill_rec" where
  "general_drill_rec general =
     \<lparr> issue_metric = ''general'',
       issue_phase = ''all'',
       drill_name = name general,
       drill_description = description general,
       intensity_level = ''moderate'',
       prescription = moderate (intensity general),
       rec_rationale = rationale general,
       rec_priority_score = 50,
       urgency = ''MODERATE'' \<rparr>"

text \<open>
  The three loops append one drill per issue that has one. \<^verbatim>\<open>drill_kb['general_technique']\<close>
  raises \<^verbatim>\<open>KeyError\<close> on a knowledge base without that category, and \<^verbatim>\<open>['drills'][0]\<close>
  raises \<^verbatim>\<open>IndexError\<close> on an empty list; nothing catches them.
\<close>

definition generate_adaptive_drill_recommendations ::
  "adaptive_focus \<Rightarrow> drill_kb option \<Rightarrow> py_error + recommendations" where
  "generate_adaptive_drill_recommendations focus drill_kb_opt =
     (let kb = (case drill_kb_opt of None \<Rightarrow> get_drill_knowledge_base | Some k \<Rightarrow> k);
          crit = List.map_filter (critical_drill_for kb) (critical focus);
          prio = List.map_filter (priority_drill_for kb) (take 3 (priority focus));
          maint = List.map_filter (maintenance_drill_for kb) (take 2 (monitor focus));
          recs = \<lparr> critical_drills = crit,
                   priority_drills = prio,
                   maintenance_drills = maint,
                   suppressed_count = length (suppressed focus) \<rparr>
      in if crit = [] \<and> prio = [] then
           (case map_of kb ''general_technique'' of
              None \<Rightarrow> Inl KeyError
            | Some [] \<Rightarrow> Inl IndexError
            | Some (general # ds) \<Rightarrow>
                Inr (recs \<lparr> priority_drills := prio @ [general_drill_rec general] \<rparr>))
         else Inr recs)"

section \<open>Drill outcome tracking\<close>

subsection \<open>The outcome file\<close>

text \<open>
  What \<^verbatim>\<open>json.load\<close> returns: Python's \<^verbatim>\<open>None\<close>, booleans, numbers (as reals),
  strings, lists and dictionaries (as association lists in insertion order, keys distinct).
\<close>

datatype json =
    JNull
  | JBool bool
  | JNum real
  | JStr string
  | JArr "json list"
  | JObj "(string \<times> json) list"

text \<open>
  A present file \<^verbatim>\<open>drill_outcomes.json\<close> cannot be opened for reading, or holds text
  that \<^verbatim>\<open>json.load\<close> rejects, or holds a JSON value. \<^verbatim>\<open>json.dump\<close> followed by
  \<^verbatim>\<open>json.load\<close> is taken to give the value back.
\<close>

datatype file_state = Unreadable | Unparseable | Parsed json

text \<open>
  What \<^verbatim>\<open>outcome_file.exists()\<close> meets. The status of the path cannot be read
  (\<open>Inaccessible\<close>: no search permission on the directory, a name that is too long) and
  \<^verbatim>\<open>exists()\<close> raises \<^verbatim>\<open>OSError\<close>, since \<^verbatim>\<open>pathlib\<close> re-raises every error other than
  a missing file or path component; or the file is absent and \<^verbatim>\<open>exists()\<close> is false; or
  it is present and \<^verbatim>\<open>exists()\<close> is true.
\<close>

datatype store = Inaccessible | Absent | Present file_state

definition path_exists :: "store \<Rightarrow> py_error + bool" where
  "path_exists s =
     (case s of
        Inaccessible \<Rightarrow> Inl OSError
      | Absent \<Rightarrow> Inr False
      | Present f \<Rightarrow> Inr True)"

text \<open>
  What the environment does to a write: it succeeds, or \<^verbatim>\<open>open(.., 'w')\<close> raises and the
  file is untouched, or \<^verbatim>\<open>json.dump\<close> raises after the file was truncated.
\<close>

datatype write_behaviour = WriteOk | OpenFails | DumpFails

record io_env =
  mkdir_ok :: bool
  on_write :: write_behaviour

definition load_json :: "file_state \<Rightarrow> py_error + json" where
  "load_json f =
     (case f of
        Unreadable \<Rightarrow> Inl OSError
      | Unparseable \<Rightarrow> Inl JSONDecodeError
      | Parsed j \<Rightarrow> Inr j)"

text \<open>The outcome dictionary that \<^verbatim>\<open>track_drill_outcomes\<close> builds, and its JSON form.\<close>

record outcome_record =
  o_previous_session_id :: string
  o_current_session_id :: string
  o_metric_name :: string
  o_phase :: string
  o_drill_name :: string
  o_intensity :: string
  o_classification :: string
  o_pre_value :: real
  o_post_value :: real
  o_delta :: real
  o_reliability :: string
  o_timestamp :: string

definition outcome_json :: "outcome_record \<Rightarrow> json" where
  "outcome_json r =
     JObj [(''previous_session_id'', JStr (o_previous_session_id r)),
           (''current_session_id'', JStr (o_current_session_id r)),
           (''metric_name'', JStr (o_metric_name r)),
           (''phase'', JStr (o_phase r)),
           (''drill_name'', JStr (o_drill_name r)),
           (''intensity'', JStr (o_intensity r)),
           (''classification'', JStr (o_classification r)),
           (''pre_value'', JNum (o_pre_value r)),
           (''post_value'', JNum (o_post_value r)),
           (''delta'', JNum (o_delta r)),
           (''reliability'', JStr (o_reliability r)),
           (''timestamp'', JStr (o_timestamp r))]"

subsection \<open>\<^verbatim>\<open>save_drill_outcomes\<close>\<close>

text \<open>\<^verbatim>\<open>existing_outcomes.extend(outcomes)\<close>: only a list has the method.\<close>

definition list_extend :: "json \<Rightarrow> json list \<Rightarrow> py_error + json" where
  "list_extend existing outcomes =
     (case existing of
        JArr xs \<Rightarrow> Inr (JArr (xs @ outcomes))
      | _ \<Rightarrow> Inl AttributeError)"

text \<open>
  Loading the existing outcomes. \<^verbatim>\<open>outcome_file.exists()\<close> is outside the inner
  \<^verbatim>\<open>try\<close>, so its exception leaves the block. Inside the inner \<^verbatim>\<open>try\<close>, any failure
  to open or parse an existing file is caught by the bare \<^verbatim>\<open>except\<close> and the history
  starts from the empty list.
\<close>

definition load_existing_outcomes :: "store \<Rightarrow> py_error + json" where
  "load_existing_outcomes s =
     (case path_exists s of
        Inl e \<Rightarrow> Inl e
      | Inr ex \<Rightarrow>
          if ex then
            (case s of
               Present f \<Rightarrow> (case load_json f of Inl e \<Rightarrow> Inr (JArr []) | Inr j \<Rightarrow> Inr j)
             | _ \<Rightarrow> Inr (JArr []))
          else Inr (JArr []))"

text \<open>
  The body of the outer \<^verbatim>\<open>try\<close>, with the state of the file after it. An exception
  leaves the block at the statement that raised it.
\<close>

definition save_body :: "io_env \<Rightarrow> json list \<Rightarrow> store \<Rightarrow> (py_error + bool) \<times> store" where
  "save_body env outcomes s =
     (if \<not> mkdir_ok env then (Inl OSError, s)
      else
        (case load_existing_outcomes s of
           Inl e \<Rightarrow> (Inl e, s)
         | Inr existing_outcomes \<Rightarrow>
             (case list_extend existing_outcomes outcomes of
                Inl e \<Rightarrow> (Inl e, s)
              | Inr new_outcomes \<Rightarrow>
                  (case on_write env of
                     OpenFails \<Rightarrow> (Inl OSError, s)
                   | DumpFails \<Rightarrow> (Inl TypeError, Present Unparseable)
                   | WriteOk \<Rightarrow> (Inr True, Present (Parsed new_outcomes))))))"

text \<open>
  The function: an empty list returns \<^verbatim>\<open>True\<close> before the \<^verbatim>\<open>try\<close>; the
  \<^verbatim>\<open>except Exception\<close> handler turns an exception of the body into \<^verbatim>\<open>False\<close>.
\<close>

definition save_drill_outcomes ::
  "io_env \<Rightarrow> json list \<Rightarrow> store \<Rightarrow> (py_error + bool) \<times> store" where
  "save_drill_outcomes env outcomes s =
     (if outcomes = [] then (Inr True, s)
      else
        (case save_body env outcomes s of
           (Inl e, s') \<Rightarrow> (Inr False, s')
         | (Inr b, s') \<Rightarrow> (Inr b, s')))"

subsection \<open>\<^verbatim>\<open>compute_drill_confidence_scores\<close>\<close>

text \<open>Python truthiness of a loaded value (\<^verbatim>\<open>if not outcomes\<close>).\<close>

fun truthy :: "json \<Rightarrow> bool" where
  "truthy JNull = False"
| "truthy (JBool b) = b"
| "truthy (JNum r) = (r \<noteq> 0)"
| "truthy (JStr s) = (s \<noteq> [])"
| "truthy (JArr xs) = (xs \<noteq> [])"
| "truthy (JObj kvs) = (kvs \<noteq> [])"

text \<open>
  \<^verbatim>\<open>for outcome in outcomes\<close>: a list yields its elements, a dictionary its keys, a
  string its characters; nothing else is iterable.
\<close>

fun py_iter :: "json \<Rightarrow> py_error + json list" where
  "py_iter (JArr xs) = Inr xs"
| "py_iter (JObj kvs) = Inr (map (\<lambda>kv. JStr (fst kv)) kvs)"
| "py_iter (JStr s) = Inr (map (\<lambda>c. JStr [c]) s)"
| "py_iter _ = Inl TypeError"

text \<open>\<^verbatim>\<open>outcome['key']\<close> with a string key.\<close>

fun subscript :: "json \<Rightarrow> string \<Rightarrow> py_error + json" where
  "subscript (JObj kvs) k = (case map_of kvs k of None \<Rightarrow> Inl KeyError | Some v \<Rightarrow> Inr v)"
| "subscript _ k = Inl TypeError"

text \<open>
  A dictionary key must be hashable, which lists and dictionaries are not. Keys are
  compared with \<^verbatim>\<open>==\<close>, under which \<^verbatim>\<open>True\<close> is 1 and \<^verbatim>\<open>False\<close> is 0; the model keeps
  the number.
\<close>

fun dict_key :: "json \<Rightarrow> py_error + json" where
  "dict_key (JArr xs) = Inl TypeError"
| "dict_key (JObj kvs) = Inl TypeError"
| "dict_key (JBool b) = Inr (JNum (if b then 1 else 0))"
| "dict_key j = Inr j"

text \<open>
  \<^verbatim>\<open>drill_groups\<close>: per drill name, the deltas and the reliabilities, in the order in
  which the names first appear.
\<close>

type_synonym drill_groups = "(json \<times> (json list \<times> json list)) list"

definition add_outcome :: "drill_groups \<Rightarrow> json \<Rightarrow> py_error + drill_groups" where
  "add_outcome groups outcome =
     (case subscript outcome ''drill_name'' of Inl e \<Rightarrow> Inl e | Inr dn \<Rightarrow>
     (case subscript outcome ''delta'' of Inl e \<Rightarrow> Inl e | Inr delta \<Rightarrow>
     (case subscript outcome ''reliability'' of Inl e \<Rightarrow> Inl e | Inr rel \<Rightarrow>
     (case dict_key dn of Inl e \<Rightarrow> Inl e | Inr k \<Rightarrow>
        (let groups1 = (if map_of groups k = None then groups @ [(k, ([], []))] else groups)
         in Inr (map (\<lambda>(k', ds, rs). if k' = k then (k', ds @ [delta], rs @ [rel])
                                      else (k', ds, rs)) groups1))))))"

fun group_outcomes :: "drill_groups \<Rightarrow> json list \<Rightarrow> py_error + drill_groups" where
  "group_outcomes groups [] = Inr groups"
| "group_outcomes groups (outcome # rest) =
     (case add_outcome groups outcome of
        Inl e \<Rightarrow> Inl e
      | Inr groups' \<Rightarrow> group_outcomes groups' rest)"

text \<open>
  \<^verbatim>\<open>np.array(deltas)\<close> followed by \<^verbatim>\<open>np.mean\<close> and \<^verbatim>\<open>np.std\<close>. Numbers and booleans
  (as 1 and 0) are the elements of a numeric array, and so are the leaves of nested lists
  when the lists at each depth have one shape: numpy then builds a matrix, whose length
  is the number of deltas and whose mean and standard deviation run over all the leaves.
  Lists of different shapes, or numbers beside lists, raise \<^verbatim>\<open>ValueError\<close>; strings,
  \<^verbatim>\<open>None\<close> and dictionaries make the mean raise \<^verbatim>\<open>TypeError\<close>. \<open>np_elems\<close> gives the
  shape of a value and its leaves in order. Numbers are reals: the difference between
  integers and floats and the limits of machine numbers are not modelled.
\<close>

fun collect :: "(py_error + 'a) list \<Rightarrow> py_error + 'a list" where
  "collect [] = Inr []"
| "collect (x # xs) =
     (case x of
        Inl e \<Rightarrow> Inl e
      | Inr v \<Rightarrow> (case collect xs of Inl e \<Rightarrow> Inl e | Inr vs \<Rightarrow> Inr (v # vs)))"

fun np_elems :: "json \<Rightarrow> py_error + (nat list \<times> real list)" where
  "np_elems (JNum r) = Inr ([], [r])"
| "np_elems (JBool b) = Inr ([], [if b then 1 else 0])"
| "np_elems (JArr xs) =
     (case collect (map np_elems xs) of
        Inl e \<Rightarrow> Inl e
      | Inr parts \<Rightarrow>
          (case parts of
             [] \<Rightarrow> Inr ([0], [])
           | (shape, leaves) # rest \<Rightarrow>
               if list_all (\<lambda>part. fst part = shape) rest
               then Inr (length xs # shape, concat (map snd parts))
               else Inl ValueError))"
| "np_elems JNull = Inl TypeError"
| "np_elems (JStr s) = Inl TypeError"
| "np_elems (JObj kvs) = Inl TypeError"

definition np_array :: "json list \<Rightarrow> py_error + real list" where
  "np_array deltas =
     (case np_elems (JArr deltas) of
        Inl e \<Rightarrow> Inl e
      | Inr (shape, leaves) \<Rightarrow> Inr leaves)"

definition np_mean :: "real list \<Rightarrow> real" where
  "np_mean xs = sum_list xs / real (length xs)"

text \<open>\<^verbatim>\<open>np.std\<close> is the population standard deviation.\<close>

definition np_std :: "real list \<Rightarrow> real" where
  "np_std xs = sqrt (np_mean (map (\<lambda>x. (x - np_mean xs)\<^sup>2) xs))"

text \<open>
  The entry of one drill. \<open>avg_delta\<close> and \<open>std_delta\<close> are Python floats that can be
  NaN, written \<open>None\<close>: the mean and the standard deviation of an array without
  elements (every delta an empty list) are NaN, returned with a warning and no exception.
\<close>

record drill_confidence =
  usage_count :: nat
  avg_delta :: "real option"
  std_delta :: "real option"
  high_reliability_ratio :: real
  conf_consistency :: real
  confidence_score :: real
  confidence_level :: string

definition consistency_of :: "real \<Rightarrow> real \<Rightarrow> real" where
  "consistency_of avg std =
     (if \<bar>avg\<bar> > 0.1 then (let cv = std / \<bar>avg\<bar> in max 0 (1 - min cv 1))
      else max 0 (1 - min (std / 10) 1))"

definition improvement_score_of :: "real \<Rightarrow> real" where
  "improvement_score_of avg = max 0 (min 1 (0.5 - (avg / 40)))"

text \<open>
  The same two expressions on floats that can be NaN. Every comparison with NaN is false,
  arithmetic on NaN gives NaN, and Python's \<^verbatim>\<open>min\<close> and \<^verbatim>\<open>max\<close> keep their first
  argument unless the second compares smaller or larger. So \<^verbatim>\<open>abs(avg_delta) > 0.1\<close> fails
  for a NaN average and the \<^verbatim>\<open>else\<close> branch is taken; \<^verbatim>\<open>min(x, 1.0)\<close> is NaN for a NaN
  \<open>x\<close> and \<^verbatim>\<open>max(0.0, 1.0 - nan)\<close> is 0; \<^verbatim>\<open>min(1.0, nan)\<close> is 1 and the improvement
  score of a NaN average is \<^verbatim>\<open>max(0.0, 1.0)\<close>.
\<close>

definition consistency_of_float :: "real option \<Rightarrow> real option \<Rightarrow> real" where
  "consistency_of_float avg std =
     (case std of
        None \<Rightarrow> 0
      | Some sd \<Rightarrow>
          (case avg of
             None \<Rightarrow> max 0 (1 - min (sd / 10) 1)
           | Some a \<Rightarrow> consistency_of a sd))"

definition improvement_score_of_float :: "real option \<Rightarrow> real" where
  "improvement_score_of_float avg =
     (case avg of None \<Rightarrow> 1 | Some a \<Rightarrow> improvement_score_of a)"

definition sample_score_of :: "nat \<Rightarrow> real" where
  "sample_score_of n = min 1 (real n / 5)"

definition confidence_level_of :: "real \<Rightarrow> string" where
  "confidence_level_of score =
     (if score \<ge> 0.75 then ''High'' else if score \<ge> 0.50 then ''Medium'' else ''Low'')"

text \<open>
  The body of the second loop, for one drill: \<open>n\<close> is \<^verbatim>\<open>len(deltas)\<close>, the number of
  deltas of the drill, and \<open>leaves\<close> are the elements of the array.
\<close>

definition score_group :: "nat \<Rightarrow> real list \<Rightarrow> json list \<Rightarrow> drill_confidence" where
  "score_group n leaves reliabilities =
     (let avg = (if leaves = [] then None else Some (np_mean leaves));
          std = (if n > 1 then (if leaves = [] then None else Some (np_std leaves))
                 else Some 0);
          high_reliability_count = length (filter (\<lambda>r. r = JStr ''High'') reliabilities);
          ratio = (if n > 0 then real high_reliability_count / real n else 0);
          cons = consistency_of_float avg std;
          improvement_score = improvement_score_of_float avg;
          reliability_score = ratio;
          consistency_score = cons;
          sample_score = sample_score_of n;
          score = 0.40 * improvement_score + 0.25 * reliability_score
                  + 0.25 * consistency_score + 0.10 * sample_score
      in \<lparr> usage_count = n,
           avg_delta = avg,
           std_delta = std,
           high_reliability_ratio = ratio,
           conf_consistency = cons,
           confidence_score = score,
           confidence_level = confidence_level_of score \<rparr>)"

fun score_groups :: "drill_groups \<Rightarrow> py_error + (json \<times> drill_confidence) list" where
  "score_groups [] = Inr []"
| "score_groups ((drill, ds, rs) # rest) =
     (case np_array ds of
        Inl e \<Rightarrow> Inl e
      | Inr leaves \<Rightarrow>
          (case score_groups rest of
             Inl e \<Rightarrow> Inl e
           | Inr scores \<Rightarrow> Inr ((drill, score_group (length ds) leaves rs) # scores)))"

text \<open>The body of the \<^verbatim>\<open>try\<close> of the scorer.\<close>

definition confidence_scores_body ::
  "file_state \<Rightarrow> py_error + (json \<times> drill_confidence) list" where
  "confidence_scores_body f =
     (case load_json f of
        Inl e \<Rightarrow> Inl e
      | Inr outcomes \<Rightarrow>
          if \<not> truthy outcomes then Inr []
          else
            (case py_iter outcomes of
               Inl e \<Rightarrow> Inl e
             | Inr items \<Rightarrow>
                 (case group_outcomes [] items of
                    Inl e \<Rightarrow> Inl e
                  | Inr groups \<Rightarrow> score_groups groups)))"

text \<open>
  The function. \<^verbatim>\<open>outcome_file.exists()\<close> is called before the \<^verbatim>\<open>try\<close>, so an
  exception it raises reaches the caller. No file gives the empty dictionary, and the
  \<^verbatim>\<open>except Exception\<close> handler turns an exception of the body into the empty dictionary.
\<close>

definition compute_drill_confidence_scores ::
  "store \<Rightarrow> py_error + (json \<times> drill_confidence) list" where
  "compute_drill_confidence_scores s =
     (case path_exists s of
        Inl e \<Rightarrow> Inl e
      | Inr ex \<Rightarrow>
          if \<not> ex then Inr []
          else
            (case s of
               Present f \<Rightarrow>
                 (case confidence_scores_body f of
                    Inl e \<Rightarrow> Inr []
                  | Inr scores \<Rightarrow> Inr scores)
             | _ \<Rightarrow> Inr []))"

section \<open>Measurement reliability\<close>

subsection \<open>\<^verbatim>\<open>compute_confidence_statistics\<close>\<close>

text \<open>
  The feature table maps a column name to its per-frame values, \<open>None\<close> for a missing
  value (\<^verbatim>\<open>NaN\<close>); a name that is no column maps to \<open>None\<close>.
\<close>

type_synonym features_df = "string \<Rightarrow> real option list option"

definition confidence_key_metrics :: "string list" where
  "confidence_key_metrics =
     [''left_shoulder_angle'', ''right_shoulder_angle'', ''left_elbow_angle'',
      ''right_elbow_angle'', ''left_knee_angle'', ''right_knee_angle'',
      ''hip_rotation'', ''spine_lean'', ''stance_width_normalized'']"

definition dropna :: "real option list \<Rightarrow> real list" where
  "dropna col = List.map_filter (\<lambda>v. v) col"

record confidence_stat =
  stat_mean :: real
  stat_std :: real
  stat_min :: real
  stat_max :: real
  stat_range :: real
  stat_cv :: real

definition metric_statistics :: "real list \<Rightarrow> confidence_stat" where
  "metric_statistics vals =
     \<lparr> stat_mean = np_mean vals,
       stat_std = np_std vals,
       stat_min = Min (set vals),
       stat_max = Max (set vals),
       stat_range = Max (set vals) - Min (set vals),
       stat_cv = (if np_mean vals \<noteq> 0 then np_std vals / np_mean vals else 0) \<rparr>"

definition metric_entry :: "features_df \<Rightarrow> string \<Rightarrow> (string \<times> confidence_stat) option" where
  "metric_entry df m =
     (case df m of
        None \<Rightarrow> None
      | Some col \<Rightarrow>
          (let vals = dropna col
           in if length vals > 0 then Some (m, metric_statistics vals) else None))"

definition compute_confidence_statistics :: "features_df \<Rightarrow> (string \<times> confidence_stat) list" where
  "compute_confidence_statistics df = List.map_filter (metric_entry df) confidence_key_metrics"

subsection \<open>\<^verbatim>\<open>assess_measurement_reliability\<close>\<close>

definition assess_metric :: "string \<Rightarrow> confidence_stat \<Rightarrow> reliability_assessment" where
  "assess_metric m stats =
     (let cv = stat_cv stats; std = stat_std stats
      in if str_in ''angle'' m then
           (if std < 10 then
              \<lparr> level = ''High'', rel_description = ''Very stable measurement'',
                rel_cv = cv, rel_std = std \<rparr>
            else if std < 20 then
              \<lparr> level = ''Medium'', rel_description = ''Moderate variation'',
                rel_cv = cv, rel_std = std \<rparr>
            else
              \<lparr> level = ''Low'',
                rel_description = ''High variation - measurement may be noisy'',
                rel_cv = cv, rel_std = std \<rparr>)
         else
           (if cv < 0.15 then
              \<lparr> level = ''High'', rel_description = ''Very stable measurement'',
                rel_cv = cv, rel_std = std \<rparr>
            else if cv < 0.30 then
              \<lparr> level = ''Medium'', rel_description = ''Moderate variation'',
                rel_cv = cv, rel_std = std \<rparr>
            else
              \<lparr> level = ''Low'',
                rel_description = ''High variation - measurement may be noisy'',
                rel_cv = cv, rel_std = std \<rparr>))"

definition assess_measurement_reliability ::
  "(string \<times> confidence_stat) list \<Rightarrow> (string \<times> reliability_assessment) list" where
  "assess_measurement_reliability confidence_stats =
     map (\<lambda>(m, stats). (m, assess_metric m stats)) confidence_stats"

section \<open>Progress tracking across sessions\<close>

subsection \<open>\<^verbatim>\<open>find_previous_session\<close>\<close>

text \<open>
  The base directory does not exist, or listing it raises, or it lists entries: a name
  and whether the entry is a directory. \<^verbatim>\<open>current_session_id\<close> defaults to \<^verbatim>\<open>None\<close>,
  which no name equals.
\<close>

datatype base_dir = Missing | Unlistable | Listing "(string \<times> bool) list"

definition looks_like_session :: "string \<Rightarrow> bool" where
  "looks_like_session nm = (length nm = 19 \<and> nm ! 10 = CHR ''_'')"

definition session_dirs_of :: "(string \<times> bool) list \<Rightarrow> string option \<Rightarrow> string list" where
  "session_dirs_of items current_session_id =
     map fst (filter (\<lambda>(nm, is_dir). is_dir \<and> Some nm \<noteq> current_session_id
                                      \<and> looks_like_session nm) items)"

text \<open>\<^verbatim>\<open>session_dirs.sort(reverse=True)\<close> on strings, then the first element.\<close>

definition find_previous_session :: "base_dir \<Rightarrow> string option \<Rightarrow> string option" where
  "find_previous_session base current_session_id =
     (case base of
        Missing \<Rightarrow> None
      | Unlistable \<Rightarrow> None
      | Listing items \<Rightarrow>
          (let session_dirs = session_dirs_of items current_session_id
           in if session_dirs = [] then None
              else (case rev (sort session_dirs) of
                      [] \<Rightarrow> None
                    | newest # older \<Rightarrow> Some newest)))"

section \<open>A worked outcome history\<close>

text \<open>
  Test data: five outcomes of the drill \<open>X\<close>, recorded as \<^verbatim>\<open>track_drill_outcomes\<close>
  records them, with the deltas \<open>-10, -12, -8, -11, -9\<close> and reliability \<open>High\<close>, and
  the outcome file that holds exactly these five.
\<close>

definition scenario_outcome :: "real \<Rightarrow> outcome_record" where
  "scenario_outcome d =
     \<lparr> o_previous_session_id = ''2024-01-01_10-00-00'',
       o_current_session_id = ''2024-01-02_10-00-00'',
       o_metric_name = ''hip_rotation'',
       o_phase = ''contact'',
       o_drill_name = ''X'',
       o_intensity = ''moderate'',
       o_classification = ''MODERATE'',
       o_pre_value = 40,
       o_post_value = 40 + d,
       o_delta = d,
       o_reliability = ''High'',
       o_timestamp = ''2024-01-02T10:00:00'' \<rparr>"

definition scenario_store :: store where
  "scenario_store =
     Present (Parsed (JArr (map outcome_json (map scenario_outcome [-10, -12, -8, -11, -9]))))"

section \<open>Properties of the decision engine\<close>

lemma classification_range:
  "classification (classify_coaching_issue m d r p s)
     \<in> {''CRITICAL'', ''PRIORITY'', ''MONITOR'', ''SUPPRESS''}"
  by (simp add: classify_coaching_issue_def Let_def)

text \<open>
  Claim C1. For every metric name, deviation, reliability level, progress delta (or none)
  and phase stability, the classifier returns one of the four classifications
  \<open>CRITICAL\<close>, \<open>PRIORITY\<close>, \<open>MONITOR\<close>, \<open>SUPPRESS\<close>, and it is the one the seven
  rules of the specification give, first match winning. In particular a severe issue of
  \<open>High\<close> reliability with a phase stability of at least 70 is \<open>CRITICAL\<close>, whatever
  the progress delta.
\<close>

theorem classify_coaching_issue_decision:
  "classification (classify_coaching_issue m d r p s)
     \<in> {''CRITICAL'', ''PRIORITY'', ''MONITOR'', ''SUPPRESS''}
   \<and> classification (classify_coaching_issue m d r p s) =
       spec_classification (spec_is_severe (str_in ''angle'' (lower m)) d)
         (spec_is_moderate (str_in ''angle'' (lower m)) d) r
         (spec_is_improving p) (spec_is_worsening p) (spec_is_consistent s)
   \<and> (is_severe (classify_coaching_issue m d r p s) \<and> r = ''High'' \<and> s \<ge> 70
        \<longrightarrow> classification (classify_coaching_issue m d r p s) = ''CRITICAL'')"
proof (intro conjI)
  show "classification (classify_coaching_issue m d r p s)
     \<in> {''CRITICAL'', ''PRIORITY'', ''MONITOR'', ''SUPPRESS''}"
    by (rule classification_range)
  show "classification (classify_coaching_issue m d r p s) =
       spec_classification (spec_is_severe (str_in ''angle'' (lower m)) d)
         (spec_is_moderate (str_in ''angle'' (lower m)) d) r
         (spec_is_improving p) (spec_is_worsening p) (spec_is_consistent s)"
    unfolding classify_coaching_issue_def Let_def spec_classification_def spec_is_severe_def
      spec_is_moderate_def spec_is_improving_def spec_is_worsening_def spec_is_consistent_def
    by (cases "str_in ''angle'' (lower m)"; cases p; auto)
  show "is_severe (classify_coaching_issue m d r p s) \<and> r = ''High'' \<and> s \<ge> 70
        \<longrightarrow> classification (classify_coaching_issue m d r p s) = ''CRITICAL''"
    by (simp add: classify_coaching_issue_def Let_def)
qed

lemma lower_left_elbow: "lower ''left_elbow_angle'' = ''left_elbow_angle''"
  by (simp add: lower_def lower_char_def)

theorem classify_coaching_issue_decision_witness:
  "is_severe (classify_coaching_issue ''left_elbow_angle'' 60 ''High'' (Some (-8)) 90)
   \<and> is_improving (classify_coaching_issue ''left_elbow_angle'' 60 ''High'' (Some (-8)) 90)
   \<and> classification (classify_coaching_issue ''left_elbow_angle'' 60 ''High'' (Some (-8)) 90)
       = ''CRITICAL''"
  using classify_coaching_issue_decision [of "''left_elbow_angle''" 60 "''High''" "Some (-8)" 90]
  by (simp add: classify_coaching_issue_def Let_def lower_left_elbow)

text \<open>
  Claim C6. For a phase stability score in \<open>[0, 100]\<close> and any metric name, deviation,
  phase, reliability level and progress delta, the components of the priority score
  satisfy \<open>0 \<le> severity \<le> 40\<close>, \<open>5 \<le> reliability \<le> 25\<close>,
  \<open>8 \<le> phase_importance \<le> 20\<close>, \<open>0 \<le> consistency \<le> 15\<close> and
  \<open>-10 \<le> progress_modifier \<le> 10\<close>, and the total score is their sum.
\<close>

theorem priority_score_bounds:
  assumes "0 \<le> st" and "st \<le> 100"
  shows "0 \<le> severity (compute_issue_priority_score m d ph rl st pd)
       \<and> severity (compute_issue_priority_score m d ph rl st pd) \<le> 40
       \<and> 5 \<le> reliability (compute_issue_priority_score m d ph rl st pd)
       \<and> reliability (compute_issue_priority_score m d ph rl st pd) \<le> 25
       \<and> 8 \<le> phase_importance (compute_issue_priority_score m d ph rl st pd)
       \<and> phase_importance (compute_issue_priority_score m d ph rl st pd) \<le> 20
       \<and> 0 \<le> consistency (compute_issue_priority_score m d ph rl st pd)
       \<and> consistency (compute_issue_priority_score m d ph rl st pd) \<le> 15
       \<and> -10 \<le> progress_modifier (compute_issue_priority_score m d ph rl st pd)
       \<and> progress_modifier (compute_issue_priority_score m d ph rl st pd) \<le> 10
       \<and> total_score (compute_issue_priority_score m d ph rl st pd) =
           severity (compute_issue_priority_score m d ph rl st pd)
           + reliability (compute_issue_priority_score m d ph rl st pd)
           + phase_importance (compute_issue_priority_score m d ph rl st pd)
           + consistency (compute_issue_priority_score m d ph rl st pd)
           + progress_modifier (compute_issue_priority_score m d ph rl st pd)"
proof -
  have sev: "0 \<le> severity_points m d \<and> severity_points m d \<le> 40"
    by (simp add: severity_points_def Let_def)
  have rel: "5 \<le> dict_get reliability_weights rl 15 \<and> dict_get reliability_weights rl 15 \<le> 25"
    by (simp add: dict_get_def reliability_weights_def)
  have ph: "8 \<le> dict_get phase_weights (lower ph) 10 \<and> dict_get phase_weights (lower ph) 10 \<le> 20"
    by (simp add: dict_get_def phase_weights_def)
  have cons: "0 \<le> st / 100 * 15 \<and> st / 100 * 15 \<le> 15"
    using assms by simp
  have pm: "-10 \<le> progress_mod_points pd \<and> progress_mod_points pd \<le> 10"
    by (simp add: progress_mod_points_def)
  show ?thesis
    using sev rel ph cons pm by (simp add: compute_issue_priority_score_def Let_def)
qed

theorem priority_score_bounds_witness:
  "(0::real) \<le> 90 \<and> (90::real) \<le> 100
   \<and> severity (compute_issue_priority_score ''stance_width_normalized'' 3.5 ''Load'' ''Low'' 90 (-12)) = 30
   \<and> reliability (compute_issue_priority_score ''stance_width_normalized'' 3.5 ''Load'' ''Low'' 90 (-12)) = 5
   \<and> progress_modifier (compute_issue_priority_score ''stance_width_normalized'' 3.5 ''Load'' ''Low'' 90 (-12)) = -10
   \<and> total_score (compute_issue_priority_score ''stance_width_normalized'' 3.5 ''Load'' ''Low'' 90 (-12)) \<le> 40 + 25 + 20 + 15 + 10"
  using priority_score_bounds [where st = 90 and m = "''stance_width_normalized''" and d = "3.5"
      and ph = "''Load''" and rl = "''Low''" and pd = "-12"]
  by (simp add: compute_issue_priority_score_def Let_def severity_points_def lower_def lower_char_def
     dict_get_def reliability_weights_def phase_weights_def progress_mod_points_def)

text \<open>
  Claim C2. For \<open>hip_rotation\<close> with deviation 60 in phase \<open>contact\<close>, reliability
  \<open>High\<close>, phase stability 90 and progress delta 8, the priority score has severity 35,
  reliability 25, phase importance 20, consistency 13.5 and progress modifier 8, in total
  101.5, and the classifier returns \<open>CRITICAL\<close>.
\<close>

theorem hip_rotation_scenario:
  "compute_issue_priority_score ''hip_rotation'' 60 ''contact'' ''High'' 90 8 =
     \<lparr> total_score = 101.5, severity = 35, reliability = 25, phase_importance = 20,
       consistency = 13.5, progress_modifier = 8 \<rparr>
   \<and> classification (classify_coaching_issue ''hip_rotation'' 60 ''High'' (Some 8) 90) = ''CRITICAL''"
  by (simp add: compute_issue_priority_score_def Let_def severity_points_def lower_def lower_char_def
     dict_get_def reliability_weights_def phase_weights_def progress_mod_points_def
     classify_coaching_issue_def)

subsection \<open>The adaptive focus\<close>

lemma cue_classification_range:
  "cue_classification (adaptive_cue_of ur ups pd cue)
     \<in> {''CRITICAL'', ''PRIORITY'', ''MONITOR'', ''SUPPRESS''}"
proof -
  obtain t pn m d ph where cue: "cue = (t, pn, m, d, ph)"
    by (cases cue) auto
  show ?thesis
    unfolding cue adaptive_cue_of_def Let_def
    using classification_range by simp
qed

lemma four_way_partition:
  assumes "\<forall>x \<in> set ys. c x = a1 \<or> c x = a2 \<or> c x = a3 \<or> c x = a4"
    and "distinct [a1, a2, a3, a4]"
  shows "mset (filter (\<lambda>x. c x = a1) ys) + mset (filter (\<lambda>x. c x = a2) ys)
         + mset (filter (\<lambda>x. c x = a3) ys) + mset (filter (\<lambda>x. c x = a4) ys) = mset ys"
  using assms by (induction ys) auto

lemma sort_key_descending:
  "sorted_wrt (\<lambda>a b. f b \<le> f a) (sort_key (\<lambda>x. - f x) (xs :: 'a list))"
  for f :: "'a \<Rightarrow> real"
proof -
  have "sorted (map (\<lambda>x. - f x) (sort_key (\<lambda>x. - f x) xs))"
    by (rule sorted_sort_key)
  then show ?thesis
    by (simp add: sorted_map)
qed

text \<open>
  Claim C10. For every list of ranked cues, \<open>all_adaptive_cues\<close> holds the cues built
  from the input, sorted by descending \<open>priority_score\<close>, and the lists \<open>critical\<close>,
  \<open>priority\<close>, \<open>monitor\<close> and \<open>suppressed\<close> partition it: together they hold every
  cue with its multiplicity, no cue is in two of them, and their lengths add up to the
  length of the input.
\<close>

theorem adaptive_focus_sorted_partition:
  fixes cues ur ups pd
  defines "f \<equiv> generate_adaptive_coaching_focus cues ur ups pd"
  shows "sorted_wrt (\<lambda>a b. priority_score b \<le> priority_score a) (all_adaptive_cues f)
       \<and> mset (all_adaptive_cues f) = mset (map (adaptive_cue_of ur ups pd) cues)
       \<and> mset (critical f) + mset (priority f) + mset (monitor f) + mset (suppressed f)
           = mset (all_adaptive_cues f)
       \<and> set (critical f) \<inter> set (priority f) = {}
       \<and> set (critical f) \<inter> set (monitor f) = {}
       \<and> set (critical f) \<inter> set (suppressed f) = {}
       \<and> set (priority f) \<inter> set (monitor f) = {}
       \<and> set (priority f) \<inter> set (suppressed f) = {}
       \<and> set (monitor f) \<inter> set (suppressed f) = {}
       \<and> length (critical f) + length (priority f) + length (monitor f)
           + length (suppressed f) = length cues"
proof -
  define ys where
    "ys = sort_key (\<lambda>x. - priority_score x) (map (adaptive_cue_of ur ups pd) cues)"
  have all: "all_adaptive_cues f = ys"
    and crit: "critical f = filter (\<lambda>c. cue_classification c = ''CRITICAL'') ys"
    and prio: "priority f = filter (\<lambda>c. cue_classification c = ''PRIORITY'') ys"
    and mon: "monitor f = filter (\<lambda>c. cue_classification c = ''MONITOR'') ys"
    and supp: "suppressed f = filter (\<lambda>c. cue_classification c = ''SUPPRESS'') ys"
    by (simp_all add: f_def generate_adaptive_coaching_focus_def Let_def ys_def)
  have srt: "sorted_wrt (\<lambda>a b. priority_score b \<le> priority_score a) ys"
    unfolding ys_def by (rule sort_key_descending)
  have ms: "mset ys = mset (map (adaptive_cue_of ur ups pd) cues)"
    unfolding ys_def by simp
  have "set ys = set (map (adaptive_cue_of ur ups pd) cues)"
    unfolding ys_def by simp
  then have rng: "\<forall>x \<in> set ys. cue_classification x = ''CRITICAL''
      \<or> cue_classification x = ''PRIORITY'' \<or> cue_classification x = ''MONITOR''
      \<or> cue_classification x = ''SUPPRESS''"
    using cue_classification_range by auto
  have part: "mset (critical f) + mset (priority f) + mset (monitor f) + mset (suppressed f)
      = mset ys"
    unfolding crit prio mon supp
    by (rule four_way_partition [OF rng]) simp
  have "size (mset (critical f) + mset (priority f) + mset (monitor f) + mset (suppressed f))
      = size (mset ys)"
    by (simp only: part)
  then have len: "length (critical f) + length (priority f) + length (monitor f)
      + length (suppressed f) = length cues"
    by (simp add: ms)
  have disj: "set (critical f) \<inter> set (priority f) = {}"
    "set (critical f) \<inter> set (monitor f) = {}"
    "set (critical f) \<inter> set (suppressed f) = {}"
    "set (priority f) \<inter> set (monitor f) = {}"
    "set (priority f) \<inter> set (suppressed f) = {}"
    "set (monitor f) \<inter> set (suppressed f) = {}"
    unfolding crit prio mon supp by auto
  show ?thesis
    using srt ms part len disj by (simp add: all)
qed

subsection \<open>The drill recommender\<close>

lemma default_kb_general:
  "\<exists>g gs. map_of get_drill_knowledge_base ''general_technique'' = Some (g # gs)
     \<and> name g = ''Slow-Motion Shadow Strokes'' \<and> moderate (intensity g) = ''50 reps''"
  by (simp add: get_drill_knowledge_base_def)

text \<open>
  Claim C7. With a knowledge base that has a first \<open>general_technique\<close> drill (the
  built-in one has), the recommender returns for every adaptive focus; when the issues
  produced no critical and no priority drill, the priority drills are exactly that drill,
  prescribed at \<open>moderate\<close> intensity, and otherwise they are the drills produced; so
  the critical and priority drills are never both empty.
\<close>

theorem drill_fallback_never_empty:
  fixes focus kbo
  defines "kb \<equiv> (case kbo of None \<Rightarrow> get_drill_knowledge_base | Some k \<Rightarrow> k)"
  defines "crit \<equiv> List.map_filter (critical_drill_for kb) (critical focus)"
  defines "prio \<equiv> List.map_filter (priority_drill_for kb) (take 3 (priority focus))"
  assumes general: "map_of kb ''general_technique'' = Some (g # gs)"
  shows "\<exists>recs. generate_adaptive_drill_recommendations focus kbo = Inr recs
       \<and> critical_drills recs = crit
       \<and> (crit = [] \<and> prio = [] \<longrightarrow> priority_drills recs = [general_drill_rec g])
       \<and> (\<not> (crit = [] \<and> prio = []) \<longrightarrow> priority_drills recs = prio)
       \<and> critical_drills recs @ priority_drills recs \<noteq> []
       \<and> issue_metric (general_drill_rec g) = ''general''
       \<and> drill_name (general_drill_rec g) = name g
       \<and> intensity_level (general_drill_rec g) = ''moderate''
       \<and> prescription (general_drill_rec g) = moderate (intensity g)"
proof (cases "crit = [] \<and> prio = []")
  case True
  then have "generate_adaptive_drill_recommendations focus kbo =
      Inr \<lparr> critical_drills = [], priority_drills = [general_drill_rec g],
            maintenance_drills = List.map_filter (maintenance_drill_for kb) (take 2 (monitor focus)),
            suppressed_count = length (suppressed focus) \<rparr>"
    using general
    by (simp add: generate_adaptive_drill_recommendations_def Let_def kb_def [symmetric]
        crit_def [symmetric] prio_def [symmetric])
  with True show ?thesis
    by (simp add: general_drill_rec_def)
next
  case False
  then have "generate_adaptive_drill_recommendations focus kbo =
      Inr \<lparr> critical_drills = crit, priority_drills = prio,
            maintenance_drills = List.map_filter (maintenance_drill_for kb) (take 2 (monitor focus)),
            suppressed_count = length (suppressed focus) \<rparr>"
    by (auto simp add: generate_adaptive_drill_recommendations_def Let_def kb_def [symmetric]
        crit_def [symmetric] prio_def [symmetric])
  with False show ?thesis
    by (auto simp add: general_drill_rec_def)
qed

theorem drill_fallback_never_empty_witness:
  "\<exists>recs. generate_adaptive_drill_recommendations
       \<lparr> all_adaptive_cues = [], critical = [], priority = [], monitor = [], suppressed = [],
         top_3 = [] \<rparr> None = Inr recs
     \<and> critical_drills recs = []
     \<and> map drill_name (priority_drills recs) = [''Slow-Motion Shadow Strokes'']
     \<and> map intensity_level (priority_drills recs) = [''moderate'']
     \<and> map prescription (priority_drills recs) = [''50 reps'']"
proof -
  obtain g gs where g: "map_of get_drill_knowledge_base ''general_technique'' = Some (g # gs)"
    and nm: "name g = ''Slow-Motion Shadow Strokes''" "moderate (intensity g) = ''50 reps''"
    using default_kb_general by blast
  from g have "map_of (case None of None \<Rightarrow> get_drill_knowledge_base | Some k \<Rightarrow> k)
      ''general_technique'' = Some (g # gs)"
    by simp
  from drill_fallback_never_empty [OF this,
      of "\<lparr> all_adaptive_cues = [], critical = [], priority = [], monitor = [], suppressed = [],
         top_3 = [] \<rparr>"]
  show ?thesis
    using nm by (auto simp add: List.map_filter_simps)
qed

section \<open>Properties of the outcome store\<close>

lemma save_ok_store:
  assumes "mkdir_ok env" and "on_write env = WriteOk"
    and "load_existing_outcomes s = Inr (JArr xs)" and "outcomes \<noteq> []"
  shows "save_drill_outcomes env outcomes s
    = (Inr True, Present (Parsed (JArr (xs @ outcomes))))"
  using assms by (simp add: save_drill_outcomes_def save_body_def list_extend_def)

lemma load_existing_parsed_list:
  "load_existing_outcomes (Present (Parsed (JArr xs))) = Inr (JArr xs)"
  by (simp add: load_existing_outcomes_def path_exists_def load_json_def)

lemma save_empty: "save_drill_outcomes env [] s = (Inr True, s)"
  by (simp add: save_drill_outcomes_def)

text \<open>
  Claim C8. When the directory can be made and the write succeeds, saving the same list
  of outcomes twice leaves a store that holds the earlier history followed by the list and
  by the list again, nothing dropped or merged: each save returns \<open>True\<close> and appends
  the list to what the store held; from a fresh (absent) store the result has twice as
  many records as the list. Saving an empty list returns \<open>True\<close> and leaves any store
  unchanged, whatever the environment.
\<close>

theorem save_drill_outcomes_appends:
  assumes env: "mkdir_ok env" "on_write env = WriteOk"
    and hist: "load_existing_outcomes s = Inr (JArr xs)"
  shows "load_existing_outcomes
           (snd (save_drill_outcomes env outcomes (snd (save_drill_outcomes env outcomes s))))
         = Inr (JArr (xs @ outcomes @ outcomes))
       \<and> (outcomes \<noteq> [] \<longrightarrow>
            save_drill_outcomes env outcomes s
              = (Inr True, Present (Parsed (JArr (xs @ outcomes))))
          \<and> save_drill_outcomes env outcomes (Present (Parsed (JArr (xs @ outcomes))))
              = (Inr True, Present (Parsed (JArr (xs @ outcomes @ outcomes)))))
       \<and> (s = Absent \<longrightarrow> xs = []
            \<and> length (xs @ outcomes @ outcomes) = 2 * length outcomes)
       \<and> save_drill_outcomes env' [] s' = (Inr True, s')"
proof (cases "outcomes = []")
  case True
  have "s = Absent \<longrightarrow> xs = []"
    using hist by (auto simp add: load_existing_outcomes_def path_exists_def)
  with True show ?thesis
    using hist by (simp add: save_empty)
next
  case False
  have first: "save_drill_outcomes env outcomes s
      = (Inr True, Present (Parsed (JArr (xs @ outcomes))))"
    by (rule save_ok_store [OF env hist False])
  have second: "save_drill_outcomes env outcomes (Present (Parsed (JArr (xs @ outcomes))))
      = (Inr True, Present (Parsed (JArr ((xs @ outcomes) @ outcomes))))"
    by (rule save_ok_store [OF env load_existing_parsed_list False])
  have fresh: "s = Absent \<longrightarrow> xs = []"
    using hist by (auto simp add: load_existing_outcomes_def path_exists_def)
  show ?thesis
    using first second fresh by (simp add: load_existing_parsed_list save_empty)
qed

theorem save_drill_outcomes_appends_witness:
  "load_existing_outcomes
     (snd (save_drill_outcomes \<lparr> mkdir_ok = True, on_write = WriteOk \<rparr> [JNum 1, JNum 2]
        (snd (save_drill_outcomes \<lparr> mkdir_ok = True, on_write = WriteOk \<rparr> [JNum 1, JNum 2]
           Absent))))
   = Inr (JArr [JNum 1, JNum 2, JNum 1, JNum 2])
   \<and> save_drill_outcomes \<lparr> mkdir_ok = True, on_write = WriteOk \<rparr> [JNum 1, JNum 2] Absent
       = (Inr True, Present (Parsed (JArr [JNum 1, JNum 2])))"
  using save_drill_outcomes_appends [where env = "\<lparr> mkdir_ok = True, on_write = WriteOk \<rparr>"
      and s = Absent and xs = "[]" and outcomes = "[JNum 1, JNum 2]"
      and env' = "\<lparr> mkdir_ok = False, on_write = OpenFails \<rparr>" and s' = Absent]
  by (simp add: load_existing_outcomes_def path_exists_def load_json_def)

subsection \<open>Which errors are swallowed\<close>

text \<open>
  The writer never ends in an exception, whatever the environment and the store: every
  statement that can raise, \<^verbatim>\<open>exists()\<close> included, is inside its \<^verbatim>\<open>try\<close>.
\<close>

lemma save_drill_outcomes_never_raises:
  "\<exists>b. fst (save_drill_outcomes env outcomes s) = Inr b"
  by (cases "save_body env outcomes s"; cases "fst (save_body env outcomes s)")
     (auto simp add: save_drill_outcomes_def)

text \<open>
  A history that cannot be read or parsed is replaced by the new outcomes; a failed write,
  a directory that cannot be made and a path whose status cannot be read make the writer
  return \<open>False\<close>.
\<close>

lemma save_drill_outcomes_recovers:
  "outcomes \<noteq> [] \<Longrightarrow> mkdir_ok env \<Longrightarrow> on_write env = WriteOk \<Longrightarrow>
   s = Present Unparseable \<or> s = Present Unreadable \<Longrightarrow>
   save_drill_outcomes env outcomes s = (Inr True, Present (Parsed (JArr outcomes)))"
  by (auto simp add: save_drill_outcomes_def save_body_def list_extend_def
      load_existing_outcomes_def path_exists_def load_json_def)

lemma save_drill_outcomes_write_failure:
  "outcomes \<noteq> [] \<Longrightarrow> on_write env \<noteq> WriteOk \<Longrightarrow>
   fst (save_drill_outcomes env outcomes s) = Inr False"
  by (cases "on_write env")
     (auto simp add: save_drill_outcomes_def save_body_def split: sum.splits)

lemma save_drill_outcomes_mkdir_failure:
  "outcomes \<noteq> [] \<Longrightarrow> \<not> mkdir_ok env \<Longrightarrow>
   save_drill_outcomes env outcomes s = (Inr False, s)"
  by (simp add: save_drill_outcomes_def save_body_def)

text \<open>
  Once \<^verbatim>\<open>exists()\<close> has answered, the scorer does not end in an exception, and a file
  that cannot be read or parsed gives the empty result.
\<close>

lemma scorer_swallows_body_errors:
  "s \<noteq> Inaccessible \<Longrightarrow> \<exists>scores. compute_drill_confidence_scores s = Inr scores"
  by (cases s)
     (auto simp add: compute_drill_confidence_scores_def path_exists_def split: sum.splits)

lemma scorer_unparseable_empty:
  "compute_drill_confidence_scores (Present Unparseable) = Inr []"
  "compute_drill_confidence_scores (Present Unreadable) = Inr []"
  by (simp_all add: compute_drill_confidence_scores_def path_exists_def
      confidence_scores_body_def load_json_def)


section \<open>Properties of the session lookup\<close>

lemma sorted_le_last:
  fixes xs :: "'a::linorder list"
  shows "sorted xs \<Longrightarrow> y \<in> set xs \<Longrightarrow> y \<le> last xs"
  by (induction xs) auto

lemma rev_last_first: "xs \<noteq> [] \<Longrightarrow> rev xs = last xs # rev (butlast xs)"
  by (cases xs rule: rev_cases) auto

lemma hd_rev_sort_Max:
  fixes xs :: "'a::linorder list"
  assumes "xs \<noteq> []"
  shows "rev (sort xs) = Max (set xs) # rev (butlast (sort xs))"
proof -
  have ne: "sort xs \<noteq> []"
    using assms by (metis length_sort length_0_conv)
  have "\<forall>y \<in> set (sort xs). y \<le> last (sort xs)"
    using sorted_sort [of xs] sorted_le_last by blast
  moreover have "last (sort xs) \<in> set xs"
    using ne last_in_set [of "sort xs"] by simp
  ultimately have "Max (set xs) = last (sort xs)"
    by (intro Max_eqI) auto
  then show ?thesis
    using rev_last_first [OF ne] by simp
qed

lemma set_session_dirs_of:
  "set (session_dirs_of items cur) =
     {nm. (nm, True) \<in> set items \<and> Some nm \<noteq> cur \<and> length nm = 19 \<and> nm ! 10 = CHR ''_''}"
  by (auto simp add: session_dirs_of_def looks_like_session_def image_iff)

lemma first_of_Cons:
  "xs = a # rest \<Longrightarrow> (case xs of [] \<Rightarrow> None | newest # older \<Rightarrow> Some newest) = Some a"
  by simp

lemma find_previous_session_listing:
  "find_previous_session (Listing items) cur =
     (if session_dirs_of items cur = [] then None
      else Some (Max (set (session_dirs_of items cur))))"
proof (cases "session_dirs_of items cur = []")
  case True
  then show ?thesis
    by (simp add: find_previous_session_def)
next
  case False
  show ?thesis
    unfolding find_previous_session_def Let_def
    using False first_of_Cons [OF hd_rev_sort_Max [OF False]] by simp
qed

text \<open>
  Claim C5, as the code has it. Among the directories of the base directory whose name is
  not the current identifier and has the session format (19 characters, an underscore at
  index 10), the lookup returns the lexicographically largest name, and none when there is
  no such directory or the base directory is missing or cannot be listed. Nothing compares
  the names with the current identifier: the result is the largest identifier strictly
  below the current one when every such directory is below it.
\<close>

theorem find_previous_session_most_recent_other:
  "find_previous_session (Listing items) cur =
     (if session_dirs_of items cur = [] then None
      else Some (Max (set (session_dirs_of items cur))))
   \<and> set (session_dirs_of items cur) =
       {nm. (nm, True) \<in> set items \<and> Some nm \<noteq> cur \<and> length nm = 19
            \<and> nm ! 10 = CHR ''_''}
   \<and> ((\<forall>nm \<in> set (session_dirs_of items (Some c)). nm < c) \<longrightarrow>
        find_previous_session (Listing items) (Some c) =
          (if {nm \<in> set (session_dirs_of items (Some c)). nm < c} = {} then None
           else Some (Max {nm \<in> set (session_dirs_of items (Some c)). nm < c})))
   \<and> find_previous_session Missing cur = None
   \<and> find_previous_session Unlistable cur = None"
proof (intro conjI impI)
  show "find_previous_session (Listing items) cur =
     (if session_dirs_of items cur = [] then None
      else Some (Max (set (session_dirs_of items cur))))"
    by (rule find_previous_session_listing)
  show "set (session_dirs_of items cur) =
       {nm. (nm, True) \<in> set items \<and> Some nm \<noteq> cur \<and> length nm = 19
            \<and> nm ! 10 = CHR ''_''}"
    by (rule set_session_dirs_of)
  show "find_previous_session Missing cur = None"
    by (simp add: find_previous_session_def)
  show "find_previous_session Unlistable cur = None"
    by (simp add: find_previous_session_def)
next
  assume older: "\<forall>nm \<in> set (session_dirs_of items (Some c)). nm < c"
  then have "{nm \<in> set (session_dirs_of items (Some c)). nm < c}
      = set (session_dirs_of items (Some c))"
    by auto
  then show "find_previous_session (Listing items) (Some c) =
          (if {nm \<in> set (session_dirs_of items (Some c)). nm < c} = {} then None
           else Some (Max {nm \<in> set (session_dirs_of items (Some c)). nm < c}))"
    by (simp add: find_previous_session_listing)
qed

lemma session_dirs_example:
  "session_dirs_of [(''2024-01-01_10-00-00'', True), (''notes'', True),
       (''2024-01-02_10-00-00'', True), (''2023-12-31_09-00-00'', True),
       (''2024-01-01_23-00-00'', False)] (Some ''2024-01-02_10-00-00'')
   = [''2024-01-01_10-00-00'', ''2023-12-31_09-00-00'']"
  by (simp add: session_dirs_of_def looks_like_session_def)

theorem find_previous_session_most_recent_other_witness:
  "session_dirs_of [(''2024-01-01_10-00-00'', True), (''notes'', True),
        (''2024-01-02_10-00-00'', True), (''2023-12-31_09-00-00'', True),
        (''2024-01-01_23-00-00'', False)] (Some ''2024-01-02_10-00-00'')
      = [''2024-01-01_10-00-00'', ''2023-12-31_09-00-00'']
   \<and> ''2024-01-01_10-00-00'' < ''2024-01-02_10-00-00''
   \<and> ''2023-12-31_09-00-00'' < ''2024-01-02_10-00-00''
   \<and> find_previous_session (Listing [(''2024-01-01_10-00-00'', True), (''notes'', True),
        (''2024-01-02_10-00-00'', True), (''2023-12-31_09-00-00'', True),
        (''2024-01-01_23-00-00'', False)]) (Some ''2024-01-02_10-00-00'')
      = Some ''2024-01-01_10-00-00''"
proof -
  let ?items = "[(''2024-01-01_10-00-00'', True), (''notes'', True),
        (''2024-01-02_10-00-00'', True), (''2023-12-31_09-00-00'', True),
        (''2024-01-01_23-00-00'', False)]"
  let ?c = "''2024-01-02_10-00-00''"
  have lt: "''2023-12-31_09-00-00'' < ''2024-01-01_10-00-00''"
    "''2024-01-01_10-00-00'' < ?c" "''2023-12-31_09-00-00'' < ?c"
    by (simp_all add: less_char_def)
  have hyp: "\<forall>nm \<in> set (session_dirs_of ?items (Some ?c)). nm < ?c"
    using lt by (simp add: session_dirs_example)
  have older: "{nm \<in> set (session_dirs_of ?items (Some ?c)). nm < ?c}
      = {''2024-01-01_10-00-00'', ''2023-12-31_09-00-00''}"
    using lt by (auto simp add: session_dirs_example)
  have mx: "Max {''2024-01-01_10-00-00'', ''2023-12-31_09-00-00''} = ''2024-01-01_10-00-00''"
    using lt(1) by (simp add: max_def)
  from find_previous_session_most_recent_other
      [where items = ?items and cur = "Some ?c" and c = ?c,
        THEN conjunct2, THEN conjunct2, THEN conjunct1] hyp
  have "find_previous_session (Listing ?items) (Some ?c) =
      (if {nm \<in> set (session_dirs_of ?items (Some ?c)). nm < ?c} = {} then None
       else Some (Max {nm \<in> set (session_dirs_of ?items (Some ?c)). nm < ?c}))"
    by blast
  then have "find_previous_session (Listing ?items) (Some ?c) = Some ''2024-01-01_10-00-00''"
    by (simp only: older mx) simp
  with lt session_dirs_example show ?thesis by simp
qed

text \<open>
  Claim C5 as stated fails: with an older and a newer session directory on disk, the
  lookup returns the newer one, which is not below the current identifier, although an
  older one exists.
\<close>

theorem find_previous_session_counterexample:
  "find_previous_session
     (Listing [(''2024-01-01_10-00-00'', True), (''2024-01-03_10-00-00'', True)])
     (Some ''2024-01-02_10-00-00'') = Some ''2024-01-03_10-00-00''
   \<and> \<not> ''2024-01-03_10-00-00'' < ''2024-01-02_10-00-00''
   \<and> ''2024-01-01_10-00-00'' < ''2024-01-02_10-00-00''"
proof -
  have dirs: "session_dirs_of [(''2024-01-01_10-00-00'', True), (''2024-01-03_10-00-00'', True)]
      (Some ''2024-01-02_10-00-00'') = [''2024-01-01_10-00-00'', ''2024-01-03_10-00-00'']"
    by (simp add: session_dirs_of_def looks_like_session_def)
  have lt: "''2024-01-01_10-00-00'' < ''2024-01-03_10-00-00''"
    by (simp add: less_char_def)
  have mx: "Max {''2024-01-01_10-00-00'', ''2024-01-03_10-00-00''} = ''2024-01-03_10-00-00''"
    using lt by (simp add: max_def)
  have "find_previous_session
     (Listing [(''2024-01-01_10-00-00'', True), (''2024-01-03_10-00-00'', True)])
     (Some ''2024-01-02_10-00-00'') = Some ''2024-01-03_10-00-00''"
    by (simp only: find_previous_session_listing dirs) (simp add: mx)
  moreover have "\<not> ''2024-01-03_10-00-00'' < ''2024-01-02_10-00-00''"
    by (simp add: less_char_def)
  moreover have "''2024-01-01_10-00-00'' < ''2024-01-02_10-00-00''"
    by (simp add: less_char_def)
  ultimately show ?thesis by simp
qed

section \<open>Properties of the reliability assessment\<close>

lemma map_of_map_filter_keyed:
  assumes "\<And>k kv. f k = Some kv \<Longrightarrow> fst kv = k"
  shows "map_of (List.map_filter f ks) m = (if m \<in> set ks then map_option snd (f m) else None)"
proof (induction ks)
  case Nil
  then show ?case by (simp add: List.map_filter_simps)
next
  case (Cons k ks)
  show ?case
  proof (cases "f k")
    case None
    then show ?thesis
      using Cons by (auto simp add: List.map_filter_simps)
  next
    case (Some kv)
    with assms have "fst kv = k" by blast
    then obtain v where kv: "kv = (k, v)" by (cases kv) auto
    show ?thesis
      using Cons Some kv by (auto simp add: List.map_filter_simps)
  qed
qed

lemma map_of_assess:
  "map_of (assess_measurement_reliability stats) m
     = map_option (assess_metric m) (map_of stats m)"
  unfolding assess_measurement_reliability_def
  by (induction stats) auto

lemma map_of_confidence_statistics:
  "map_of (compute_confidence_statistics df) m =
     (if m \<in> set confidence_key_metrics then map_option snd (metric_entry df m) else None)"
  unfolding compute_confidence_statistics_def
  by (rule map_of_map_filter_keyed)
     (auto simp add: metric_entry_def Let_def split: option.splits if_splits)

lemma angle_key_metrics:
  "filter (str_in ''angle'') confidence_key_metrics =
     [''left_shoulder_angle'', ''right_shoulder_angle'', ''left_elbow_angle'',
      ''right_elbow_angle'', ''left_knee_angle'', ''right_knee_angle'']"
  by (simp add: confidence_key_metrics_def)

lemma other_key_metrics:
  "filter (\<lambda>m. \<not> str_in ''angle'' m) confidence_key_metrics =
     [''hip_rotation'', ''spine_lean'', ''stance_width_normalized'']"
  by (simp add: confidence_key_metrics_def)

text \<open>
  Claim C4, as the code has it. A key metric with at least one non-missing sample is
  assessed from the statistics of its non-missing samples, and a metric without a column
  or without a non-missing sample has no entry. The level comes from the standard
  deviation for the metrics whose name contains \<open>angle\<close>, the six joint angles (below 10
  \<open>High\<close>, below 20 \<open>Medium\<close>, otherwise \<open>Low\<close>), and from the coefficient of
  variation \<open>std / mean\<close> for every other metric, which are \<open>hip_rotation\<close>,
  \<open>spine_lean\<close> and \<open>stance_width_normalized\<close> (below 0.15 \<open>High\<close>, below 0.30
  \<open>Medium\<close>, otherwise \<open>Low\<close>).
\<close>

theorem reliability_by_metric_kind:
  "map_of (assess_measurement_reliability (compute_confidence_statistics df)) m =
     (case df m of
        None \<Rightarrow> None
      | Some col \<Rightarrow>
          if m \<in> set confidence_key_metrics \<and> dropna col \<noteq> []
          then Some (assess_metric m (metric_statistics (dropna col)))
          else None)
   \<and> level (assess_metric m st) =
       (if str_in ''angle'' m
        then (if stat_std st < 10 then ''High''
              else if stat_std st < 20 then ''Medium'' else ''Low'')
        else (if stat_cv st < 0.15 then ''High''
              else if stat_cv st < 0.30 then ''Medium'' else ''Low''))
   \<and> stat_std (metric_statistics vals) = np_std vals
   \<and> stat_cv (metric_statistics vals) =
       (if np_mean vals \<noteq> 0 then np_std vals / np_mean vals else 0)
   \<and> filter (str_in ''angle'') confidence_key_metrics =
       [''left_shoulder_angle'', ''right_shoulder_angle'', ''left_elbow_angle'',
        ''right_elbow_angle'', ''left_knee_angle'', ''right_knee_angle'']
   \<and> filter (\<lambda>m. \<not> str_in ''angle'' m) confidence_key_metrics =
       [''hip_rotation'', ''spine_lean'', ''stance_width_normalized'']"
proof (intro conjI)
  show "map_of (assess_measurement_reliability (compute_confidence_statistics df)) m =
     (case df m of
        None \<Rightarrow> None
      | Some col \<Rightarrow>
          if m \<in> set confidence_key_metrics \<and> dropna col \<noteq> []
          then Some (assess_metric m (metric_statistics (dropna col)))
          else None)"
    by (simp add: map_of_assess map_of_confidence_statistics metric_entry_def Let_def
        split: option.splits)
  show "level (assess_metric m st) =
       (if str_in ''angle'' m
        then (if stat_std st < 10 then ''High''
              else if stat_std st < 20 then ''Medium'' else ''Low'')
        else (if stat_cv st < 0.15 then ''High''
              else if stat_cv st < 0.30 then ''Medium'' else ''Low''))"
    by (simp add: assess_metric_def Let_def)
  show "stat_std (metric_statistics vals) = np_std vals"
    by (simp add: metric_statistics_def)
  show "stat_cv (metric_statistics vals) =
       (if np_mean vals \<noteq> 0 then np_std vals / np_mean vals else 0)"
    by (simp add: metric_statistics_def)
  show "filter (str_in ''angle'') confidence_key_metrics =
       [''left_shoulder_angle'', ''right_shoulder_angle'', ''left_elbow_angle'',
        ''right_elbow_angle'', ''left_knee_angle'', ''right_knee_angle'']"
    by (rule angle_key_metrics)
  show "filter (\<lambda>m. \<not> str_in ''angle'' m) confidence_key_metrics =
       [''hip_rotation'', ''spine_lean'', ''stance_width_normalized'']"
    by (rule other_key_metrics)
qed

lemma stats_one_three:
  "np_mean [1, 3] = 2" "np_std [1, 3] = 1"
  by (simp_all add: np_mean_def np_std_def)

text \<open>
  Claim C4 as stated fails: \<open>hip_rotation\<close> with the samples 1 and 3 (and a missing
  one) has standard deviation 1, far below 10, and is assessed \<open>Low\<close>, because its
  coefficient of variation is one half.
\<close>

theorem hip_rotation_reliability_counterexample:
  "map_of (assess_measurement_reliability
       (compute_confidence_statistics [''hip_rotation'' \<mapsto> [Some 1, None, Some 3]]))
     ''hip_rotation''
   = Some \<lparr> level = ''Low'', rel_description = ''High variation - measurement may be noisy'',
            rel_cv = 1 / 2, rel_std = 1 \<rparr>
   \<and> (1 :: real) < 10"
proof -
  have key: "''hip_rotation'' \<in> set confidence_key_metrics"
    by (simp add: confidence_key_metrics_def)
  have vals: "dropna [Some 1, None, Some 3] = [1, 3]"
    by (simp add: dropna_def List.map_filter_simps)
  have "map_of (assess_measurement_reliability
       (compute_confidence_statistics [''hip_rotation'' \<mapsto> [Some 1, None, Some 3]]))
     ''hip_rotation'' = Some (assess_metric ''hip_rotation'' (metric_statistics [1, 3]))"
    using key
    by (simp add: map_of_assess map_of_confidence_statistics metric_entry_def Let_def vals)
  moreover have "assess_metric ''hip_rotation'' (metric_statistics [1, 3]) =
      \<lparr> level = ''Low'', rel_description = ''High variation - measurement may be noisy'',
        rel_cv = 1 / 2, rel_std = 1 \<rparr>"
    by (simp add: assess_metric_def metric_statistics_def Let_def stats_one_three)
  ultimately show ?thesis by simp
qed

section \<open>Properties of the confidence scorer\<close>

lemma subscript_outcome_json:
  "subscript (outcome_json r) ''drill_name'' = Inr (JStr (o_drill_name r))"
  "subscript (outcome_json r) ''delta'' = Inr (JNum (o_delta r))"
  "subscript (outcome_json r) ''reliability'' = Inr (JStr (o_reliability r))"
  by (simp_all add: outcome_json_def)

lemma add_outcome_new:
  "map_of groups (JStr (o_drill_name r)) = None \<Longrightarrow> groups = [] \<Longrightarrow>
   add_outcome groups (outcome_json r)
     = Inr [(JStr (o_drill_name r), [JNum (o_delta r)], [JStr (o_reliability r)])]"
  by (simp add: add_outcome_def subscript_outcome_json Let_def)

lemma add_outcome_same:
  "add_outcome [(JStr (o_drill_name r), ds, rs)] (outcome_json r)
     = Inr [(JStr (o_drill_name r), ds @ [JNum (o_delta r)], rs @ [JStr (o_reliability r)])]"
  by (simp add: add_outcome_def subscript_outcome_json Let_def)

lemma group_five_outcomes:
  assumes "\<forall>r \<in> set [r1, r2, r3, r4, r5]. o_drill_name r = x"
  shows "group_outcomes [] (map outcome_json [r1, r2, r3, r4, r5])
     = Inr [(JStr x, map (\<lambda>r. JNum (o_delta r)) [r1, r2, r3, r4, r5],
             map (\<lambda>r. JStr (o_reliability r)) [r1, r2, r3, r4, r5])]"
proof -
  have n: "o_drill_name r1 = x" "o_drill_name r2 = x" "o_drill_name r3 = x"
    "o_drill_name r4 = x" "o_drill_name r5 = x"
    using assms by simp_all
  have a1: "add_outcome [] (outcome_json r1) = Inr [(JStr x, [JNum (o_delta r1)], [JStr (o_reliability r1)])]"
    using add_outcome_new [of "[]" r1] n by simp
  have step: "\<And>r ds rs. o_drill_name r = x \<Longrightarrow> add_outcome [(JStr x, ds, rs)] (outcome_json r)
     = Inr [(JStr x, ds @ [JNum (o_delta r)], rs @ [JStr (o_reliability r)])]"
    using add_outcome_same by metis
  show ?thesis
    by (simp add: a1 step n)
qed

lemma sqrt2_bounds: "1.4142 < sqrt 2" "sqrt 2 < 1.4143"
proof -
  have "(1.4142::real)\<^sup>2 < 2" by (simp add: power2_eq_square)
  then show "1.4142 < sqrt 2" by (rule real_less_rsqrt)
  have "(2::real) < 1.4143\<^sup>2" by (simp add: power2_eq_square)
  then show "sqrt 2 < 1.4143" by (intro real_less_lsqrt) simp_all
qed

lemma scenario_mean_std:
  "np_mean [-10, -12, -8, -11, -9] = -10" "np_std [-10, -12, -8, -11, -9] = sqrt 2"
  by (simp_all add: np_mean_def np_std_def)

lemma scenario_consistency: "consistency_of (-10) (sqrt 2) = 1 - sqrt 2 / 10"
  using sqrt2_bounds by (simp add: consistency_of_def Let_def)

lemma scenario_score_group:
  "score_group 5 [-10, -12, -8, -11, -9]
     [JStr ''High'', JStr ''High'', JStr ''High'', JStr ''High'', JStr ''High'']
     = \<lparr> usage_count = 5, avg_delta = Some (-10), std_delta = Some (sqrt 2),
         high_reliability_ratio = 1, conf_consistency = 1 - sqrt 2 / 10,
         confidence_score = 9 / 10 - sqrt 2 / 40, confidence_level = ''High'' \<rparr>"
proof -
  have avg: "(if [-10, -12, -8, -11, -9 :: real] = [] then None
      else Some (np_mean [-10, -12, -8, -11, -9])) = Some (-10)"
    by (simp add: scenario_mean_std)
  have std: "(if (5 :: nat) > 1
      then (if [-10, -12, -8, -11, -9 :: real] = [] then None
            else Some (np_std [-10, -12, -8, -11, -9]))
      else Some 0) = Some (sqrt 2)"
    by (simp add: scenario_mean_std)
  have ratio: "(if (5 :: nat) > 0
      then real (length (filter (\<lambda>r. r = JStr ''High'')
        [JStr ''High'', JStr ''High'', JStr ''High'', JStr ''High'', JStr ''High''])) / real (5 :: nat)
      else 0) = 1"
    by simp
  have cons: "consistency_of_float (Some (-10)) (Some (sqrt 2)) = 1 - sqrt 2 / 10"
    by (simp add: consistency_of_float_def scenario_consistency)
  have imp: "improvement_score_of_float (Some (-10)) = 3 / 4"
    by (simp add: improvement_score_of_float_def improvement_score_of_def)
  have smp: "sample_score_of 5 = 1"
    by (simp add: sample_score_of_def)
  have score: "0.40 * (3 / 4) + 0.25 * 1 + 0.25 * (1 - sqrt 2 / 10) + 0.10 * 1
      = 9 / 10 - sqrt 2 / 40"
    by (simp add: field_simps)
  have lvl: "confidence_level_of (9 / 10 - sqrt 2 / 40) = ''High''"
    using sqrt2_bounds by (simp add: confidence_level_of_def)
  show ?thesis
    unfolding score_group_def Let_def avg std ratio cons imp smp score lvl
    by (rule refl)
qed

lemma scorer_present:
  "compute_drill_confidence_scores (Present f)
     = (case confidence_scores_body f of Inl e \<Rightarrow> Inr [] | Inr scores \<Rightarrow> Inr scores)"
  by (simp add: compute_drill_confidence_scores_def path_exists_def)

lemma confidence_five_outcomes:
  assumes "\<forall>r \<in> set [r1, r2, r3, r4, r5]. o_drill_name r = x \<and> o_reliability r = ''High''"
    and "map o_delta [r1, r2, r3, r4, r5] = [-10, -12, -8, -11, -9]"
  shows "compute_drill_confidence_scores
           (Present (Parsed (JArr (map outcome_json [r1, r2, r3, r4, r5]))))
         = Inr [(JStr x,
                 \<lparr> usage_count = 5, avg_delta = Some (-10), std_delta = Some (sqrt 2),
                   high_reliability_ratio = 1, conf_consistency = 1 - sqrt 2 / 10,
                   confidence_score = 9 / 10 - sqrt 2 / 40, confidence_level = ''High'' \<rparr>)]"
proof -
  have names: "\<forall>r \<in> set [r1, r2, r3, r4, r5]. o_drill_name r = x"
    using assms(1) by simp
  have rels: "map (\<lambda>r. JStr (o_reliability r)) [r1, r2, r3, r4, r5]
      = [JStr ''High'', JStr ''High'', JStr ''High'', JStr ''High'', JStr ''High'']"
    using assms(1) by simp
  have deltas: "map (\<lambda>r. JNum (o_delta r)) [r1, r2, r3, r4, r5]
      = [JNum (-10), JNum (-12), JNum (-8), JNum (-11), JNum (-9)]"
    using assms(2) by simp
  have arr: "np_array [JNum (-10), JNum (-12), JNum (-8), JNum (-11), JNum (-9)]
      = Inr [-10, -12, -8, -11, -9]"
    by (simp add: np_array_def)
  have groups: "group_outcomes [] (map outcome_json [r1, r2, r3, r4, r5])
      = Inr [(JStr x, [JNum (-10), JNum (-12), JNum (-8), JNum (-11), JNum (-9)],
              [JStr ''High'', JStr ''High'', JStr ''High'', JStr ''High'', JStr ''High''])]"
    by (simp only: group_five_outcomes [OF names] rels deltas)
  have len5: "length [JNum (-10), JNum (-12), JNum (-8), JNum (-11), JNum (-9)] = 5"
    by simp
  have scores: "score_groups [(JStr x, [JNum (-10), JNum (-12), JNum (-8), JNum (-11), JNum (-9)],
              [JStr ''High'', JStr ''High'', JStr ''High'', JStr ''High'', JStr ''High''])]
      = Inr [(JStr x, score_group 5 [-10, -12, -8, -11, -9]
              [JStr ''High'', JStr ''High'', JStr ''High'', JStr ''High'', JStr ''High''])]"
    by (simp only: score_groups.simps arr sum.case len5)
  have body: "confidence_scores_body (Parsed (JArr (map outcome_json [r1, r2, r3, r4, r5])))
      = Inr [(JStr x, score_group 5 [-10, -12, -8, -11, -9]
              [JStr ''High'', JStr ''High'', JStr ''High'', JStr ''High'', JStr ''High''])]"
    unfolding confidence_scores_body_def load_json_def
    by (simp add: groups scores del: group_outcomes.simps score_groups.simps list.map)
  show ?thesis
    by (simp only: scorer_present body sum.case scenario_score_group)
qed

text \<open>
  Claim C3, as the code has it. For a store that holds exactly five outcome records of one
  drill, with the deltas \<open>-10, -12, -8, -11, -9\<close> and reliability \<open>High\<close> on all five,
  the scorer returns one entry, for that drill: usage count 5, average delta \<open>-10\<close>,
  standard deviation \<open>sqrt 2\<close> (about 1.41), high-reliability ratio 1, consistency
  \<open>1 - sqrt 2 / 10\<close> (about 0.859) and level \<open>High\<close>. With improvement score 0.75 and
  sample score 1 the weighted sum, the confidence score, is \<open>0.9 - sqrt 2 / 40\<close>, which
  is 0.8646 to four decimals.
\<close>

theorem confidence_scenario_values:
  assumes "\<forall>r \<in> set [r1, r2, r3, r4, r5]. o_drill_name r = x \<and> o_reliability r = ''High''"
    and "map o_delta [r1, r2, r3, r4, r5] = [-10, -12, -8, -11, -9]"
  shows "compute_drill_confidence_scores
           (Present (Parsed (JArr (map outcome_json [r1, r2, r3, r4, r5]))))
         = Inr [(JStr x,
                 \<lparr> usage_count = 5, avg_delta = Some (-10), std_delta = Some (sqrt 2),
                   high_reliability_ratio = 1, conf_consistency = 1 - sqrt 2 / 10,
                   confidence_score = 9 / 10 - sqrt 2 / 40, confidence_level = ''High'' \<rparr>)]
       \<and> improvement_score_of (-10) = 0.75
       \<and> sample_score_of 5 = 1
       \<and> 9 / 10 - sqrt 2 / 40
           = 0.40 * improvement_score_of (-10) + 0.25 * 1 + 0.25 * (1 - sqrt 2 / 10)
             + 0.10 * sample_score_of 5
       \<and> \<bar>sqrt 2 - 1.41\<bar> < 0.01
       \<and> \<bar>(1 - sqrt 2 / 10) - 0.859\<bar> < 0.001
       \<and> \<bar>(9 / 10 - sqrt 2 / 40) - 0.8646\<bar> < 0.0001"
proof -
  have imp: "improvement_score_of (-10) = 0.75"
    by (simp add: improvement_score_of_def)
  have smp: "sample_score_of 5 = 1"
    by (simp add: sample_score_of_def)
  have sum: "9 / 10 - sqrt 2 / 40
      = 0.40 * improvement_score_of (-10) + 0.25 * 1 + 0.25 * (1 - sqrt 2 / 10)
        + 0.10 * sample_score_of 5"
    unfolding imp smp by (simp add: field_simps)
  have b1: "\<bar>sqrt 2 - 1.41\<bar> < 0.01"
    using sqrt2_bounds by (simp add: abs_if)
  have b2: "\<bar>(1 - sqrt 2 / 10) - 0.859\<bar> < 0.001"
    using sqrt2_bounds by (simp add: abs_if)
  have b3: "\<bar>(9 / 10 - sqrt 2 / 40) - 0.8646\<bar> < 0.0001"
    using sqrt2_bounds by (simp add: abs_if)
  show ?thesis
    using confidence_five_outcomes [OF assms] imp smp sum b1 b2 b3 by blast
qed

theorem confidence_scenario_values_witness:
  "compute_drill_confidence_scores
     (Present (Parsed (JArr (map outcome_json
        [(scenario_outcome (-10)) \<lparr> o_drill_name := ''Wall Contact Drill'' \<rparr>,
         (scenario_outcome (-12)) \<lparr> o_drill_name := ''Wall Contact Drill'' \<rparr>,
         (scenario_outcome (-8)) \<lparr> o_drill_name := ''Wall Contact Drill'' \<rparr>,
         (scenario_outcome (-11)) \<lparr> o_drill_name := ''Wall Contact Drill'' \<rparr>,
         (scenario_outcome (-9)) \<lparr> o_drill_name := ''Wall Contact Drill'' \<rparr>]))))
   = Inr [(JStr ''Wall Contact Drill'',
           \<lparr> usage_count = 5, avg_delta = Some (-10), std_delta = Some (sqrt 2),
             high_reliability_ratio = 1, conf_consistency = 1 - sqrt 2 / 10,
             confidence_score = 9 / 10 - sqrt 2 / 40, confidence_level = ''High'' \<rparr>)]"
  using confidence_scenario_values
    [where x = "''Wall Contact Drill''"
      and ?r1.0 = "(scenario_outcome (-10)) \<lparr> o_drill_name := ''Wall Contact Drill'' \<rparr>"
      and ?r2.0 = "(scenario_outcome (-12)) \<lparr> o_drill_name := ''Wall Contact Drill'' \<rparr>"
      and ?r3.0 = "(scenario_outcome (-8)) \<lparr> o_drill_name := ''Wall Contact Drill'' \<rparr>"
      and ?r4.0 = "(scenario_outcome (-11)) \<lparr> o_drill_name := ''Wall Contact Drill'' \<rparr>"
      and ?r5.0 = "(scenario_outcome (-9)) \<lparr> o_drill_name := ''Wall Contact Drill'' \<rparr>"]
  by (simp add: scenario_outcome_def)

text \<open>
  Claim C3 as stated fails: on the worked history the confidence score is
  \<open>0.9 - sqrt 2 / 40\<close>, below 0.87, and so it is not 0.9148.
\<close>

theorem confidence_scenario_counterexample:
  "compute_drill_confidence_scores scenario_store
     = Inr [(JStr ''X'',
             \<lparr> usage_count = 5, avg_delta = Some (-10), std_delta = Some (sqrt 2),
               high_reliability_ratio = 1, conf_consistency = 1 - sqrt 2 / 10,
               confidence_score = 9 / 10 - sqrt 2 / 40, confidence_level = ''High'' \<rparr>)]
   \<and> 9 / 10 - sqrt 2 / 40 < (0.87 :: real)
   \<and> (0.87 :: real) < 0.9148"
proof -
  have records: "map scenario_outcome [-10, -12, -8, -11, -9]
      = [scenario_outcome (-10), scenario_outcome (-12), scenario_outcome (-8),
         scenario_outcome (-11), scenario_outcome (-9)]"
    by simp
  have "compute_drill_confidence_scores scenario_store
     = Inr [(JStr ''X'',
             \<lparr> usage_count = 5, avg_delta = Some (-10), std_delta = Some (sqrt 2),
               high_reliability_ratio = 1, conf_consistency = 1 - sqrt 2 / 10,
               confidence_score = 9 / 10 - sqrt 2 / 40, confidence_level = ''High'' \<rparr>)]"
    unfolding scenario_store_def records
    by (rule confidence_five_outcomes) (simp_all add: scenario_outcome_def)
  moreover have "9 / 10 - sqrt 2 / 40 < (0.87 :: real)"
    using sqrt2_bounds by simp
  ultimately show ?thesis by simp
qed

end
